theory Spec2Isabelle
  imports Main
begin

section \<open>Python values, exceptions and dictionaries\<close>

text \<open>
  The values that \<open>yaml.safe_load\<close> and \<open>eval\<close> hand to the program: \<open>None\<close>, booleans,
  integers, strings, lists and dictionaries. A dictionary keeps its insertion order, so it
  is an association list. YAML floats, dates, binaries and sets have no constructor here.
\<close>

datatype pyval =
    PNone
  | PBool bool
  | PInt int
  | PStr string
  | PList "pyval list"
  | PDict "(pyval \<times> pyval) list"

type_synonym dict = "(pyval \<times> pyval) list"

text \<open>
  Exceptions. \<open>SystemExit\<close> is what \<open>sys.exit\<close> raises; it is a \<open>BaseException\<close> and no
  \<open>except Exception\<close> clause catches it. \<open>ClientError\<close> (botocore) carries the error code
  of the remote service. Every other exception is \<open>Exception\<close> with its class name or message.
\<close>

datatype exn =
    SystemExit nat
  | ClientError string
  | Exception string

fun is_Exception :: "exn \<Rightarrow> bool" where
  "is_Exception (SystemExit n) = False"
| "is_Exception (ClientError c) = True"
| "is_Exception (Exception c) = True"

fun is_ClientError :: "exn \<Rightarrow> bool" where
  "is_ClientError (ClientError c) = True"
| "is_ClientError (SystemExit n) = False"
| "is_ClientError (Exception c) = False"

subsection \<open>Dictionary keys\<close>

text \<open>
  Python compares dictionary keys with \<open>==\<close>, and \<open>True == 1\<close>, \<open>False == 0\<close>:
  \<open>norm_key\<close> maps a key to the representative of its class, and two keys are the same
  key when their representatives are equal.
\<close>

fun norm_key :: "pyval \<Rightarrow> pyval" where
  "norm_key (PBool b) = PInt (if b then 1 else 0)"
| "norm_key k = k"

definition py_key_eq :: "pyval \<Rightarrow> pyval \<Rightarrow> bool" where
  "py_key_eq a b = (norm_key a = norm_key b)"

fun hashable :: "pyval \<Rightarrow> bool" where
  "hashable (PList xs) = False"
| "hashable (PDict d) = False"
| "hashable k = True"

text \<open>\<open>d.get(k)\<close>: the value of the first entry whose key equals \<open>k\<close>.\<close>

fun dict_get :: "dict \<Rightarrow> pyval \<Rightarrow> pyval option" where
  "dict_get [] k = None"
| "dict_get ((k', v') # d) k = (if py_key_eq k' k then Some v' else dict_get d k)"

text \<open>
  \<open>d[k] = v\<close>: an existing key keeps its place and its key object and takes the new
  value; a new key goes to the end.
\<close>

fun dict_setitem :: "dict \<Rightarrow> pyval \<Rightarrow> pyval \<Rightarrow> dict" where
  "dict_setitem [] k v = [(k, v)]"
| "dict_setitem ((k', v') # d) k v =
     (if py_key_eq k' k then (k', v) # d else (k', v') # dict_setitem d k v)"

text \<open>\<open>d.update(other)\<close> for a dictionary \<open>other\<close>: its items are stored in order.\<close>

fun dict_update :: "dict \<Rightarrow> dict \<Rightarrow> dict" where
  "dict_update d [] = d"
| "dict_update d ((k, v) # other) = dict_update (dict_setitem d k v) other"

text \<open>
  \<open>norm_keys\<close> lists the keys of a dictionary by their representatives. In a
  dictionary the keys are pairwise different (as Python compares them).
\<close>

fun norm_keys :: "dict \<Rightarrow> pyval list" where
  "norm_keys [] = []"
| "norm_keys ((k, v) # d) = norm_key k # norm_keys d"

definition dict_wf :: "dict \<Rightarrow> bool" where
  "dict_wf d = distinct (norm_keys d)"

text \<open>
  Iteration (\<open>iter(x)\<close>): a list yields its elements, a string its characters, a
  dictionary its keys; the other values are not iterable.
\<close>

fun py_iter :: "pyval \<Rightarrow> pyval list option" where
  "py_iter (PList xs) = Some xs"
| "py_iter (PStr s) = Some (map (\<lambda>c. PStr [c]) s)"
| "py_iter (PDict d) = Some (map fst d)"
| "py_iter v = None"

text \<open>
  \<open>d.update(other)\<close> where \<open>other\<close> is no dictionary: \<open>other\<close> must be an iterable
  of key/value pairs, each an iterable of length two with a hashable first component.
\<close>

fun update_pairs :: "dict \<Rightarrow> pyval list \<Rightarrow> exn + dict" where
  "update_pairs d [] = Inr d"
| "update_pairs d (item # items) =
     (case py_iter item of
        None \<Rightarrow> Inl (Exception ''TypeError'')
      | Some [k, v] \<Rightarrow>
          (if hashable k then update_pairs (dict_setitem d k v) items
           else Inl (Exception ''TypeError''))
      | Some _ \<Rightarrow> Inl (Exception ''ValueError''))"

text \<open>
  The statement \<open>recv.update(other)\<close> on arbitrary values; the result is the updated
  receiver. Only a dictionary has the method.
\<close>

definition py_update :: "pyval \<Rightarrow> pyval \<Rightarrow> exn + pyval" where
  "py_update recv other =
     (case recv of
        PDict d \<Rightarrow>
          (case other of
             PDict od \<Rightarrow> Inr (PDict (dict_update d od))
           | _ \<Rightarrow>
              (case py_iter other of
                 None \<Rightarrow> Inl (Exception ''TypeError'')
               | Some items \<Rightarrow>
                  (case update_pairs d items of
                     Inl e \<Rightarrow> Inl e
                   | Inr d' \<Rightarrow> Inr (PDict d'))))
      | _ \<Rightarrow> Inl (Exception ''AttributeError''))"

text \<open>\<open>list(x)\<close>.\<close>

definition py_list :: "pyval \<Rightarrow> exn + pyval list" where
  "py_list v = (case py_iter v of None \<Rightarrow> Inl (Exception ''TypeError'') | Some xs \<Rightarrow> Inr xs)"

section \<open>Strings\<close>

text \<open>
  \<open>s.split(sep)\<close> for a one-character separator: the pieces between the separators;
  the result is never empty.
\<close>

fun py_split :: "char \<Rightarrow> string \<Rightarrow> string list" where
  "py_split sep [] = [[]]"
| "py_split sep (c # cs) =
     (if c = sep then [] # py_split sep cs
      else (case py_split sep cs of
              [] \<Rightarrow> [[c]]
            | p # ps \<Rightarrow> (c # p) # ps))"

text \<open>
  \<open>s.replace(old, new)\<close>: every occurrence of \<open>old\<close> is replaced, scanning from the
  left and continuing behind each occurrence. An empty \<open>old\<close> matches before every
  character and at the end.
\<close>

function py_replace :: "string \<Rightarrow> string \<Rightarrow> string \<Rightarrow> string" where
  "py_replace [] old new = (if old = [] then new else [])"
| "py_replace (c # cs) old new =
     (if old = [] then new @ c # py_replace cs old new
      else if take (length old) (c # cs) = old
           then new @ py_replace (drop (length old) (c # cs)) old new
      else c # py_replace cs old new)"
  by pat_completeness auto
termination
  by (relation "measure (\<lambda>(s, old, new). length s)") auto

section \<open>The outside world\<close>

text \<open>
  Requests to the stack-management service (the CloudFormation client of boto3), with
  their keyword arguments in the order of the comments. The describe-change-set request
  of \<open>get_changes\<close> is left out: no code calls that function.
\<close>

datatype request =
    Describe_stacks string
    \<comment> \<open>StackName\<close>
  | Create_change_set string string "pyval list" string "string list"
    \<comment> \<open>StackName, TemplateBody, Parameters, ChangeSetName, Capabilities\<close>
  | Create_stack string string "pyval list" "string list"
    \<comment> \<open>StackName, TemplateBody, Parameters, Capabilities\<close>
  | Waiter_wait string "(string \<times> string) list" nat
    \<comment> \<open>the waiter's name, the keyword arguments naming what is awaited, the Delay\<close>

text \<open>
  What a run does to the outside, in order. \<open>Print_error p e\<close> is the f-string
  \<open>f'p{e}'\<close>; \<open>Eval s\<close> is the text \<open>s\<close> handed to Python's \<open>eval\<close>. An event stands
  for a call that is made, whether or not the call then raises. The events of a run are
  those of the calls written in the program and, between them, those of the text that
  \<open>eval\<close> runs.
\<close>

datatype event =
    Print string
  | Print_value pyval
  | Print_error string exn
  | Print_traceback exn
  | Eval string
  | Remote request
  | Open_for_writing string
  | Write_file string string

text \<open>The dictionary that \<open>init_variables\<close> builds, with its five keys.\<close>

record init =
  valuesFile :: string
  templateFileName :: string
  jsonFile :: string
  stackName :: string
  stackBody :: string

text \<open>
  The collaborators the program calls, as functions of their arguments: the filesystem,
  the YAML, Jinja and JSON libraries, the Python evaluator, the option parser, the remote
  service and the random generator (the sequence of its raw draws). An exception they
  raise is the \<open>Inl\<close> or \<open>Some\<close> result. \<open>boto3_client\<close> answers every creation of a
  client in the run alike.

  \<open>eval\<close> runs the text it is given in the scope of its caller, with the module's
  globals (\<open>boto3\<close>, \<open>sys\<close>, \<open>os\<close>) and the local variables of \<open>fill_json\<close> at hand.
  \<open>py_eval\<close> takes the text and these locals (\<open>init\<close>, \<open>parameter_file\<close>, \<open>values\<close>)
  and yields what the evaluation does: the events it produces, which may be any,
  requests to the remote service included, and the value of the expression together with
  the dictionary \<open>init\<close> as the evaluation leaves it, or the exception it raises
  (\<open>SystemExit\<close> included). Of the changes the text can make to \<open>init\<close>, new values
  for its five keys are represented.

  \<open>rng\<close> is the state of the process's random generator at the time the deployment
  starts.
\<close>

record world =
  isfile :: "string \<Rightarrow> bool"
  read_text :: "string \<Rightarrow> exn + string"
  open_w :: "string \<Rightarrow> exn option"
  write_text :: "string \<Rightarrow> string \<Rightarrow> exn option"
  yaml_safe_load :: "string \<Rightarrow> exn + pyval"
  jinja2_render :: "string \<Rightarrow> pyval \<Rightarrow> exn + string"
  py_eval :: "string \<Rightarrow> init \<Rightarrow> string \<Rightarrow> pyval \<Rightarrow> event list \<times> (exn + pyval \<times> init)"
  json_dumps :: "pyval \<Rightarrow> bool \<Rightarrow> nat \<Rightarrow> exn + string"
  getopt :: "string list \<Rightarrow> string \<Rightarrow> string list \<Rightarrow> exn + ((string \<times> string) list \<times> string list)"
  boto3_client :: "string \<Rightarrow> exn option"
  get_waiter :: "string \<Rightarrow> exn option"
  cf_call :: "request \<Rightarrow> exn option"
  rng :: "nat \<Rightarrow> nat"

text \<open>A computation: the events it produced and its result or the exception it raised.\<close>

type_synonym 'a io = "event list \<times> (exn + 'a)"

definition return :: "'a \<Rightarrow> 'a io" where
  "return x = ([], Inr x)"

definition raise :: "exn \<Rightarrow> 'a io" where
  "raise e = ([], Inl e)"

definition sys_exit :: "nat \<Rightarrow> 'a io" where
  "sys_exit n = raise (SystemExit n)"

definition emit :: "event \<Rightarrow> unit io" where
  "emit ev = ([ev], Inr ())"

definition lift :: "exn + 'a \<Rightarrow> 'a io" where
  "lift r = ([], r)"

definition lift_opt :: "exn option \<Rightarrow> unit io" where
  "lift_opt r = (case r of None \<Rightarrow> return () | Some e \<Rightarrow> raise e)"

text \<open>Sequencing: the second computation runs only when the first returns.\<close>

definition bind_io :: "'a io \<Rightarrow> ('a \<Rightarrow> 'b io) \<Rightarrow> 'b io" where
  "bind_io m f =
     (case m of
        (es, Inl e) \<Rightarrow> (es, Inl e)
      | (es, Inr x) \<Rightarrow> (case f x of (es', r) \<Rightarrow> (es @ es', r)))"

text \<open>
  \<open>try: m except C as e: h e\<close>, where \<open>catches\<close> says which exceptions are instances
  of \<open>C\<close>.
\<close>

definition try_except :: "'a io \<Rightarrow> (exn \<Rightarrow> bool) \<Rightarrow> (exn \<Rightarrow> 'a io) \<Rightarrow> 'a io" where
  "try_except m catches h =
     (case m of
        (es, Inl e) \<Rightarrow>
          (if catches e then (case h e of (es', r) \<Rightarrow> (es @ es', r)) else (es, Inl e))
      | (es, Inr x) \<Rightarrow> (es, Inr x))"

definition remote :: "world \<Rightarrow> request \<Rightarrow> unit io" where
  "remote w req = bind_io (emit (Remote req)) (\<lambda>_. lift_opt (cf_call w req))"

definition is_remote :: "event \<Rightarrow> bool" where
  "is_remote ev = (case ev of Remote req \<Rightarrow> True | _ \<Rightarrow> False)"

section \<open>The program\<close>

definition COMMON_FILE_PATH :: string where
  "COMMON_FILE_PATH = ''cf_vars/common.yml''"

text \<open>The values of the enumeration \<open>Actions\<close>.\<close>

definition Actions_values :: "string list" where
  "Actions_values = [''fill'', ''deploy'']"

definition ascii_uppercase :: string where
  "ascii_uppercase = ''ABCDEFGHIJKLMNOPQRSTUVWXYZ''"

definition digits :: string where
  "digits = ''0123456789''"

text \<open>
  \<open>id_generator\<close>: \<open>sz\<close> characters (the parameter \<open>size\<close>), each \<open>random.choice(chars)\<close>, that is
  \<open>chars[randbelow(len(chars))]\<close>. The generator \<open>g\<close> is the sequence of raw draws still
  to come; the function returns the generator behind the draws it consumed.
  \<open>random.choice\<close> raises IndexError on an empty sequence.
\<close>

definition id_generator :: "(nat \<Rightarrow> nat) \<Rightarrow> nat \<Rightarrow> string \<Rightarrow> (exn + string) \<times> (nat \<Rightarrow> nat)" where
  "id_generator g sz chars =
     (if 0 < sz \<and> chars = [] then (Inl (Exception ''IndexError''), g)
      else (Inr (map (\<lambda>i. chars ! (g i mod length chars)) [0..<sz]), (\<lambda>i. g (i + sz))))"

definition stack_exists :: "world \<Rightarrow> string \<Rightarrow> bool io" where
  "stack_exists w stack_name =
     try_except
       (bind_io (lift_opt (boto3_client w ''cloudformation'')) (\<lambda>_.
        bind_io (remote w (Describe_stacks stack_name)) (\<lambda>_.
        bind_io (emit (Print (stack_name @ '' stack found.''))) (\<lambda>_.
        return True))))
       is_ClientError
       (\<lambda>e. bind_io (emit (Print (stack_name @ '' stack not found.''))) (\<lambda>_.
             return False))"

text \<open>
  \<open>create_change_set\<close>, with the random generator that \<open>id_generator\<close> draws from passed
  explicitly: \<open>g\<close> is its state at the call, and the second component of the result is
  its state when the call is over. The generator is advanced when \<open>id_generator\<close> is
  reached, that is, when the client and the waiter are at hand.
\<close>

definition create_change_set ::
    "world \<Rightarrow> (nat \<Rightarrow> nat) \<Rightarrow> string \<Rightarrow> string \<Rightarrow> pyval list \<Rightarrow> unit io \<times> (nat \<Rightarrow> nat)" where
  "create_change_set w g stack_name body parameters =
     (let client = bind_io (lift_opt (boto3_client w ''cloudformation'')) (\<lambda>_.
                   lift_opt (get_waiter w ''change_set_create_complete''));
          drawn = id_generator g 6 (ascii_uppercase @ digits)
      in (try_except
            (bind_io client (\<lambda>_.
             bind_io (lift (fst drawn)) (\<lambda>random_id.
             let change_set_name = stack_name @ ''-'' @ random_id in
             bind_io (remote w (Create_change_set stack_name body parameters change_set_name
                                  [''CAPABILITY_NAMED_IAM''])) (\<lambda>_.
             bind_io (remote w (Waiter_wait ''change_set_create_complete''
                                  [(''ChangeSetName'', change_set_name),
                                   (''StackName'', stack_name)]
                                  10)) (\<lambda>_.
             emit (Print (''Change set '' @ change_set_name @ '' for stack '' @ stack_name
                            @ '' created!'')))))))
            is_Exception
            (\<lambda>e. bind_io (emit (Print_error
                     ''An error has occurred during the creation of the change set: '' e)) (\<lambda>_.
                  sys_exit 2)),
          if snd client = Inr () then snd drawn else g))"

definition create_stack :: "world \<Rightarrow> string \<Rightarrow> string \<Rightarrow> pyval list \<Rightarrow> unit io" where
  "create_stack w stack_name body parameters =
     try_except
       (bind_io (lift_opt (boto3_client w ''cloudformation'')) (\<lambda>_.
        bind_io (lift_opt (get_waiter w ''stack_create_complete'')) (\<lambda>_.
        bind_io (remote w (Create_stack stack_name body parameters
                             [''CAPABILITY_NAMED_IAM''])) (\<lambda>_.
        bind_io (remote w (Waiter_wait ''stack_create_complete''
                             [(''StackName'', stack_name)] 10)) (\<lambda>_.
        emit (Print (''Stack '' @ stack_name @ '' created!'')))))))
       is_Exception
       (\<lambda>e. bind_io (emit (Print_error
                ''An error has occurred during the creation of the stack: '' e)) (\<lambda>_.
             sys_exit 2))"

definition deploy_stack :: "world \<Rightarrow> init \<Rightarrow> pyval list \<Rightarrow> unit io" where
  "deploy_stack w ini json_parameters =
     try_except
       (let sn = stackName ini; body = stackBody ini in
        bind_io (emit (Print (''Checking if the '' @ sn @ '' stack exists.''))) (\<lambda>_.
        bind_io (stack_exists w sn) (\<lambda>found.
        if found
        then bind_io (emit (Print (''Creating change set for stack: '' @ sn))) (\<lambda>_.
             fst (create_change_set w (rng w) sn body json_parameters))
        else bind_io (emit (Print (''Stack '' @ sn @ '' does not exists, creating it...''))) (\<lambda>_.
             create_stack w sn body json_parameters))))
       is_Exception
       (\<lambda>e. bind_io (emit (Print_error
                ''An error has occurred during the stack creation: '' e)) (\<lambda>_.
             sys_exit 2))"

text \<open>\<open>yaml.safe_load(open(path))\<close>: opening or reading may raise, then parsing may.\<close>

definition load_yaml_file :: "world \<Rightarrow> string \<Rightarrow> pyval io" where
  "load_yaml_file w path =
     bind_io (lift (read_text w path)) (\<lambda>text. lift (yaml_safe_load w text))"

definition merge_vars_file :: "world \<Rightarrow> init \<Rightarrow> pyval io" where
  "merge_vars_file w ini =
     try_except
       (bind_io (load_yaml_file w COMMON_FILE_PATH) (\<lambda>common_values.
        bind_io (load_yaml_file w (valuesFile ini)) (\<lambda>custom_values.
        lift (py_update custom_values common_values))))
       is_Exception
       (\<lambda>e. bind_io (emit (Print_error
                ''An error has occurred merging the vars files: '' e)) (\<lambda>_.
             sys_exit 2))"

text \<open>
  \<open>fill_json\<close> returns the list; the dictionary \<open>init\<close> it was given is shared with
  \<open>main\<close>, so the result carries \<open>init\<close> as the evaluation left it.
\<close>

definition fill_json :: "world \<Rightarrow> init \<Rightarrow> (pyval list \<times> init) io" where
  "fill_json w ini =
     try_except
       (bind_io (lift (read_text w (jsonFile ini))) (\<lambda>parameter_file.
        bind_io (merge_vars_file w ini) (\<lambda>values.
        bind_io (emit (Print_value values)) (\<lambda>_.
        bind_io (lift (jinja2_render w parameter_file values)) (\<lambda>rendered.
        bind_io (emit (Eval rendered)) (\<lambda>_.
        bind_io (py_eval w rendered ini parameter_file values) (\<lambda>(evaluated, ini').
        bind_io (lift (py_list evaluated)) (\<lambda>output.
        return (output, ini')))))))))
       is_Exception
       (\<lambda>e. bind_io (emit (Print_error
                ''An error has occurred filling the json file: '' e)) (\<lambda>_.
             sys_exit 2))"

definition check_file :: "world \<Rightarrow> string \<Rightarrow> bool io" where
  "check_file w file =
     try_except
       (if \<not> isfile w file then raise (Exception (''File '' @ file @ '' does not exists!''))
        else return True)
       is_Exception
       (\<lambda>e. bind_io (emit (Print_error
                (''An error has occurred checking '' @ file @ '': '') e)) (\<lambda>_.
             sys_exit 2))"

definition save_to_file :: "world \<Rightarrow> string \<Rightarrow> pyval list \<Rightarrow> string \<Rightarrow> unit io" where
  "save_to_file w name content extension =
     try_except
       (let file_name = name @ ''.'' @ extension in
        bind_io (emit (Open_for_writing file_name)) (\<lambda>_.
        bind_io (lift_opt (open_w w file_name)) (\<lambda>_.
        bind_io (lift (json_dumps w (PList content) True 4)) (\<lambda>text.
        bind_io (emit (Write_file file_name text)) (\<lambda>_.
        lift_opt (write_text w file_name text))))))
       is_Exception
       (\<lambda>e. bind_io (emit (Print_error
                ''An error occurred during the save of json file: '' e)) (\<lambda>_.
             sys_exit 2))"

definition init_variables :: "world \<Rightarrow> string \<Rightarrow> string \<Rightarrow> init io" where
  "init_variables w env t =
     try_except
       (let values_file = ''cf_vars/'' @ env @ ''.yml'' in
        bind_io (check_file w values_file) (\<lambda>_.
        bind_io (check_file w t) (\<lambda>_.
        let t_file_name = last (py_split CHR ''/'' t);
            path = py_replace t t_file_name [];
            clean_name = py_replace (py_replace t_file_name ''.yaml'' []) ''.yml'' [];
            json_file = path @ clean_name @ ''.json'' in
        bind_io (check_file w json_file) (\<lambda>_.
        let stack_name = ''ct-'' @ env @ ''-base-'' @ clean_name @ ''-stack'' in
        bind_io (lift (read_text w t)) (\<lambda>stack_body.
        return \<lparr>valuesFile = values_file, templateFileName = t_file_name,
                 jsonFile = json_file, stackName = stack_name,
                 stackBody = stack_body\<rparr>)))))
       is_Exception
       (\<lambda>e. bind_io (emit (Print_error ''An error has occurred in init_variables: '' e)) (\<lambda>_.
             sys_exit 2))"

text \<open>
  The loop of \<open>main\<close> over the parsed options: the help option prints the usage and
  exits with status 2; the others store their argument.
\<close>

function scan_opts :: "string \<Rightarrow> (string \<times> string) list \<Rightarrow> string \<times> string \<times> string
    \<Rightarrow> (string \<times> string \<times> string) io" where
  "scan_opts arg_help [] (environment, template, action) =
     return (environment, template, action)"
| "scan_opts arg_help ((opt, arg) # opts) (environment, template, action) =
     (if opt \<in> set [''-h'', ''--help'']
      then bind_io (emit (Print arg_help)) (\<lambda>_. sys_exit 2)
      else if opt \<in> set [''-e'', ''--environment'']
      then scan_opts arg_help opts (arg, template, action)
      else if opt \<in> set [''-t'', ''--template'']
      then scan_opts arg_help opts (environment, arg, action)
      else if opt \<in> set [''-a'', ''--action'']
      then scan_opts arg_help opts (environment, template, arg)
      else scan_opts arg_help opts (environment, template, action))"
  by pat_completeness auto
termination
  by (relation "measure (\<lambda>(h, opts, st). length opts)") simp_all

text \<open>\<open>str\<close> of the list of the members of \<open>Actions\<close>, as the error message shows it.\<close>

definition Actions_str :: string where
  "Actions_str = [CHR ''[''] @ [CHR 0x27] @ ''Actions.FILL'' @ [CHR 0x27] @ '', ''
                 @ [CHR 0x27] @ ''Actions.DEPLOY'' @ [CHR 0x27] @ '']''"

text \<open>
  \<open>main\<close>. \<open>argv[0]\<close> is read before the \<open>try\<close>: on an empty \<open>argv\<close> the IndexError is
  not caught.
\<close>

definition main :: "world \<Rightarrow> string list \<Rightarrow> unit io" where
  "main w argv =
     (case argv of
        [] \<Rightarrow> raise (Exception ''IndexError'')
      | prog # args \<Rightarrow>
          let arg_help = prog @ '' -e <environment> -t <template> -a <fill|deploy>'' in
          try_except
            (bind_io (lift (getopt w args ''he:t:a:''
                        [''help'', ''environment='', ''template='', ''action=''])) (\<lambda>(opts, rest).
             bind_io (scan_opts arg_help opts ([], [], [])) (\<lambda>(environment, template, action).
             if action = [] then raise (Exception ''Action must be defined'')
             else if action \<notin> set Actions_values
             then raise (Exception (''Action '' @ action
                           @ '' not supported, supported actions are: '' @ Actions_str))
             else if environment = [] then raise (Exception ''Environment must be defined'')
             else if template = [] then raise (Exception ''Template must be defined'')
             else
               bind_io (init_variables w environment template) (\<lambda>ini.
               bind_io (if action = ''deploy''
                        then bind_io (fill_json w ini) (\<lambda>(filled_json, ini').
                             deploy_stack w ini' filled_json)
                        else return ()) (\<lambda>_.
               bind_io (if action = ''fill''
                        then bind_io (fill_json w ini) (\<lambda>(filled_json, ini').
                             save_to_file w (stackName ini') filled_json ''json'')
                        else return ()) (\<lambda>_.
               return ()))))))
            is_Exception
            (\<lambda>e. bind_io (emit (Print_error ''An error has occurred: '' e)) (\<lambda>_.
                  bind_io (emit (Print_traceback e)) (\<lambda>_.
                  sys_exit 2))))"

text \<open>
  The exit status of the process: 0 when \<open>main\<close> returns, the argument of \<open>sys.exit\<close>,
  and 1 for an exception that nothing caught.
\<close>

definition exit_status :: "unit io \<Rightarrow> nat" where
  "exit_status r =
     (case snd r of
        Inr u \<Rightarrow> 0
      | Inl (SystemExit n) \<Rightarrow> n
      | Inl e \<Rightarrow> 1)"

text \<open>
  The local variables of \<open>init_variables\<close>, as functions of the template path \<open>t\<close> and
  the environment \<open>env\<close>, for use in statements.
\<close>

definition t_file_name_of :: "string \<Rightarrow> string" where
  "t_file_name_of t = last (py_split CHR ''/'' t)"

definition path_of :: "string \<Rightarrow> string" where
  "path_of t = py_replace t (t_file_name_of t) []"

definition clean_name_of :: "string \<Rightarrow> string" where
  "clean_name_of t = py_replace (py_replace (t_file_name_of t) ''.yaml'' []) ''.yml'' []"

definition values_file_of :: "string \<Rightarrow> string" where
  "values_file_of env = ''cf_vars/'' @ env @ ''.yml''"

definition json_file_of :: "string \<Rightarrow> string" where
  "json_file_of t = path_of t @ clean_name_of t @ ''.json''"

definition stack_name_of :: "string \<Rightarrow> string \<Rightarrow> string" where
  "stack_name_of env t = ''ct-'' @ env @ ''-base-'' @ clean_name_of t @ ''-stack''"

text \<open>The arguments of the \<open>getopt.getopt\<close> call in \<open>main\<close>.\<close>

definition shortopts :: string where
  "shortopts = ''he:t:a:''"

definition longopts :: "string list" where
  "longopts = [''help'', ''environment='', ''template='', ''action='']"

definition usage :: "string \<Rightarrow> string" where
  "usage prog = prog @ '' -e <environment> -t <template> -a <fill|deploy>''"

text \<open>Events that only print.\<close>

definition is_print :: "event \<Rightarrow> bool" where
  "is_print ev =
     (case ev of
        Print s \<Rightarrow> True
      | Print_value v \<Rightarrow> True
      | Print_error p e \<Rightarrow> True
      | Print_traceback e \<Rightarrow> True
      | _ \<Rightarrow> False)"

text \<open>Requests of the two deployment paths.\<close>

definition is_change_set_request :: "event \<Rightarrow> bool" where
  "is_change_set_request ev =
     (case ev of
        Remote (Create_change_set sn b ps n cs) \<Rightarrow> True
      | Remote (Waiter_wait n kw d) \<Rightarrow> n = ''change_set_create_complete''
      | _ \<Rightarrow> False)"

definition is_stack_request :: "event \<Rightarrow> bool" where
  "is_stack_request ev =
     (case ev of
        Remote (Create_stack sn b ps cs) \<Rightarrow> True
      | Remote (Waiter_wait n kw d) \<Rightarrow> n = ''stack_create_complete''
      | _ \<Rightarrow> False)"

text \<open>
  The checks of \<open>main\<close> on the parsed arguments, in their order: the exception that
  \<open>main\<close> raises, if any.
\<close>

definition args_error :: "string \<Rightarrow> string \<Rightarrow> string \<Rightarrow> exn option" where
  "args_error environment template action =
     (if action = [] then Some (Exception ''Action must be defined'')
      else if action \<notin> set Actions_values
      then Some (Exception (''Action '' @ action
                   @ '' not supported, supported actions are: '' @ Actions_str))
      else if environment = [] then Some (Exception ''Environment must be defined'')
      else if template = [] then Some (Exception ''Template must be defined'')
      else None)"

section \<open>A sample world\<close>

text \<open>
  A small concrete world on which the statements below are run: the environment
  \<open>prod\<close>, the template \<open>templates/vpc.yaml\<close> with its parameter template
  \<open>templates/vpc.json\<close>, a service that knows no stack, and an option parser that pairs
  each option with the argument behind it.
\<close>

definition sample_read_text :: "string \<Rightarrow> exn + string" where
  "sample_read_text p =
     (if p = ''cf_vars/common.yml'' then Inr ''{one: 1, owner: ops}''
      else if p = ''cf_vars/prod.yml'' then Inr ''{one: 5, name: prod}''
      else if p = ''templates/vpc.yaml'' then Inr ''Resources: {}''
      else if p = ''templates/vpc.json''
      then Inr ''[dict(ParameterKey=str(1), ParameterValue=str({{ one }} + 1))]''
      else Inl (Exception ''FileNotFoundError''))"

definition sample_common :: dict where
  "sample_common = [(PStr ''one'', PInt 1), (PStr ''owner'', PStr ''ops'')]"

definition sample_custom :: dict where
  "sample_custom = [(PStr ''one'', PInt 5), (PStr ''name'', PStr ''prod'')]"

definition sample_yaml :: "string \<Rightarrow> exn + pyval" where
  "sample_yaml s =
     (if s = ''{one: 1, owner: ops}'' then Inr (PDict sample_common)
      else if s = ''{one: 5, name: prod}'' then Inr (PDict sample_custom)
      else Inl (Exception ''YAMLError''))"

definition sample_rendered :: string where
  "sample_rendered = ''[dict(ParameterKey=str(1), ParameterValue=str(1 + 1))]''"

definition sample_render :: "string \<Rightarrow> pyval \<Rightarrow> exn + string" where
  "sample_render text values =
     (case values of
        PDict d \<Rightarrow>
          (if text = ''[dict(ParameterKey=str(1), ParameterValue=str({{ one }} + 1))]''
              \<and> dict_get d (PStr ''one'') = Some (PInt 1)
           then Inr sample_rendered
           else Inl (Exception ''TemplateError''))
      | _ \<Rightarrow> Inl (Exception ''TemplateError''))"

definition sample_parameters :: "pyval list" where
  "sample_parameters =
     [PDict [(PStr ''ParameterKey'', PStr ''1''), (PStr ''ParameterValue'', PStr ''2'')]]"

definition sample_eval ::
    "string \<Rightarrow> init \<Rightarrow> string \<Rightarrow> pyval \<Rightarrow> event list \<times> (exn + pyval \<times> init)" where
  "sample_eval s ini parameter_file values =
     (if s = sample_rendered then ([], Inr (PList sample_parameters, ini))
      else ([], Inl (Exception ''SyntaxError'')))"

definition sample_json :: string where
  "sample_json =
     ''['' @ [CHR 0x0A] @
     ''    {'' @ [CHR 0x0A] @
     ''        '' @ [CHR 0x22] @ ''ParameterKey'' @ [CHR 0x22] @ '': ''
                 @ [CHR 0x22] @ ''1'' @ [CHR 0x22] @ '','' @ [CHR 0x0A] @
     ''        '' @ [CHR 0x22] @ ''ParameterValue'' @ [CHR 0x22] @ '': ''
                 @ [CHR 0x22] @ ''2'' @ [CHR 0x22] @ [CHR 0x0A] @
     ''    }'' @ [CHR 0x0A] @
     '']''"

definition sample_dumps :: "pyval \<Rightarrow> bool \<Rightarrow> nat \<Rightarrow> exn + string" where
  "sample_dumps v sort_keys indent =
     (if v = PList sample_parameters \<and> sort_keys \<and> indent = 4 then Inr sample_json
      else Inl (Exception ''TypeError''))"

fun sample_pairs :: "string list \<Rightarrow> (string \<times> string) list" where
  "sample_pairs [] = []"
| "sample_pairs [opt] = [(opt, [])]"
| "sample_pairs (opt # arg # rest) =
     (if opt \<in> set [''-h'', ''--help''] then (opt, []) # sample_pairs (arg # rest)
      else (opt, arg) # sample_pairs rest)"

definition sample_getopt :: "string list \<Rightarrow> string \<Rightarrow> string list
    \<Rightarrow> exn + ((string \<times> string) list \<times> string list)" where
  "sample_getopt args short long = Inr (sample_pairs args, [])"

definition sample_cf_call :: "request \<Rightarrow> exn option" where
  "sample_cf_call req =
     (case req of
        Describe_stacks sn \<Rightarrow> Some (ClientError ''ValidationError'')
      | _ \<Rightarrow> None)"

definition sample_world :: world where
  "sample_world =
     \<lparr>isfile = (\<lambda>p. p \<in> set [''cf_vars/common.yml'', ''cf_vars/prod.yml'',
                                  ''templates/vpc.yaml'', ''templates/vpc.json'']),
      read_text = sample_read_text,
      open_w = (\<lambda>p. None),
      write_text = (\<lambda>p s. None),
      yaml_safe_load = sample_yaml,
      jinja2_render = sample_render,
      py_eval = sample_eval,
      json_dumps = sample_dumps,
      getopt = sample_getopt,
      boto3_client = (\<lambda>service. None),
      get_waiter = (\<lambda>name. None),
      cf_call = sample_cf_call,
      rng = (\<lambda>i. 7 * i + 3)\<rparr>"

definition sample_init :: init where
  "sample_init =
     \<lparr>valuesFile = ''cf_vars/prod.yml'', templateFileName = ''vpc.yaml'',
      jsonFile = ''templates/vpc.json'', stackName = ''ct-prod-base-vpc-stack'',
      stackBody = ''Resources: {}''\<rparr>"

text \<open>The same world with a service that answers every describe call with success.\<close>

definition present_world :: world where
  "present_world = sample_world\<lparr>cf_call := (\<lambda>req. None)\<rparr>"

text \<open>The same world with a service that throttles the describe call.\<close>

definition throttled_world :: world where
  "throttled_world =
     sample_world\<lparr>cf_call := (\<lambda>req. case req of
                                   Describe_stacks sn \<Rightarrow> Some (ClientError ''Throttling'')
                                 | _ \<Rightarrow> None)\<rparr>"

text \<open>The sample world with every path naming a file whose text is a template body.\<close>

definition all_files_world :: world where
  "all_files_world =
     sample_world\<lparr>isfile := (\<lambda>p. True), read_text := (\<lambda>p. Inr ''Resources: {}'')\<rparr>"




text \<open>
  A world for the template \<open>templates/db.yml.yaml\<close>: its own parameter template
  \<open>templates/db.yml.json\<close> is missing, and a file \<open>templates/db.json\<close> is there.
\<close>

definition shadowed_world :: world where
  "shadowed_world =
     sample_world\<lparr>isfile := (\<lambda>p. p \<in> set [''cf_vars/common.yml'', ''cf_vars/prod.yml'',
                                             ''templates/db.yml.yaml'', ''templates/db.json'']),
                  read_text := (\<lambda>p. if p = ''templates/db.yml.yaml'' then Inr ''Resources: {}''
                                        else if p = ''templates/db.json''
                                        then sample_read_text ''templates/vpc.json''
                                        else sample_read_text p)\<rparr>"

section \<open>Computations\<close>

lemma bind_io_Inr [simp]: "bind_io (es, Inr x) f = (es @ fst (f x), snd (f x))"
  by (simp add: bind_io_def split_beta)

lemma bind_io_Inl [simp]: "bind_io (es, Inl e) f = (es, Inl e)"
  by (simp add: bind_io_def)

lemma try_except_Inr [simp]: "try_except (es, Inr x) c h = (es, Inr x)"
  by (simp add: try_except_def)

lemma try_except_Inl [simp]:
  "try_except (es, Inl e) c h = (if c e then (es @ fst (h e), snd (h e)) else (es, Inl e))"
  by (simp add: try_except_def split_beta)

lemmas io_defs = return_def raise_def sys_exit_def emit_def lift_def lift_opt_def remote_def

section \<open>Dictionaries\<close>

lemma dict_get_None_iff: "dict_get d k = None \<longleftrightarrow> norm_key k \<notin> set (norm_keys d)"
  by (induction d rule: norm_keys.induct) (auto simp: py_key_eq_def)

lemma dict_get_setitem:
  "dict_get (dict_setitem d k v) k' = (if py_key_eq k k' then Some v else dict_get d k')"
  by (induction d rule: norm_keys.induct) (auto simp: py_key_eq_def)

lemma norm_keys_setitem:
  "norm_keys (dict_setitem d k v) =
     (if norm_key k \<in> set (norm_keys d) then norm_keys d else norm_keys d @ [norm_key k])"
  by (induction d rule: norm_keys.induct) (auto simp: py_key_eq_def)

lemma dict_wf_setitem: "dict_wf d \<Longrightarrow> dict_wf (dict_setitem d k v)"
  by (simp add: dict_wf_def norm_keys_setitem)

lemma dict_get_update_absent:
  "dict_get other k = None \<Longrightarrow> dict_get (dict_update d other) k = dict_get d k"
  by (induction d other rule: dict_update.induct) (auto simp: dict_get_setitem split: if_splits)

lemma dict_get_update_present:
  "dict_wf other \<Longrightarrow> dict_get other k = Some v \<Longrightarrow> dict_get (dict_update d other) k = Some v"
proof (induction d other rule: dict_update.induct)
  case (1 d)
  then show ?case by simp
next
  case (2 d k0 v0 other)
  show ?case
  proof (cases "py_key_eq k0 k")
    case True
    with "2.prems" have v: "v = v0" by simp
    from "2.prems"(1) True have "dict_get other k = None"
      by (simp add: dict_wf_def dict_get_None_iff py_key_eq_def)
    then show ?thesis using True v
      by (simp add: dict_get_update_absent dict_get_setitem)
  next
    case False
    with "2.prems" have "dict_get other k = Some v" "dict_wf other"
      by (auto simp: dict_wf_def)
    then show ?thesis using "2.IH" by simp
  qed
qed

lemma dict_wf_update: "dict_wf d \<Longrightarrow> dict_wf (dict_update d other)"
  by (induction d other rule: dict_update.induct) (auto simp: dict_wf_setitem)

lemma norm_keys_update:
  "set (norm_keys (dict_update d other)) = set (norm_keys d) \<union> set (norm_keys other)"
  by (induction d other rule: dict_update.induct) (auto simp: norm_keys_setitem)

section \<open>The Configuration Merger\<close>

lemma load_yaml_file_events: "fst (load_yaml_file w p) = []"
  by (cases "read_text w p") (simp_all add: load_yaml_file_def io_defs)

lemma merge_vars_file_dicts:
  assumes "snd (load_yaml_file w COMMON_FILE_PATH) = Inr (PDict common)"
      and "snd (load_yaml_file w (valuesFile ini)) = Inr (PDict custom)"
  shows "merge_vars_file w ini = ([], Inr (PDict (dict_update custom common)))"
proof -
  have "load_yaml_file w COMMON_FILE_PATH = ([], Inr (PDict common))"
    using assms(1) load_yaml_file_events [of w COMMON_FILE_PATH] by (simp add: prod_eq_iff)
  moreover have "load_yaml_file w (valuesFile ini) = ([], Inr (PDict custom))"
    using assms(2) load_yaml_file_events [of w "valuesFile ini"] by (simp add: prod_eq_iff)
  ultimately show ?thesis
    by (simp add: merge_vars_file_def py_update_def io_defs)
qed

lemma sample_loads:
  "snd (load_yaml_file sample_world COMMON_FILE_PATH) = Inr (PDict sample_common)"
  "snd (load_yaml_file sample_world (valuesFile sample_init)) = Inr (PDict sample_custom)"
  by (simp_all add: load_yaml_file_def COMMON_FILE_PATH_def io_defs sample_world_def
      sample_read_text_def sample_yaml_def sample_init_def)

lemma sample_dicts_wf: "dict_wf sample_common" "dict_wf sample_custom"
  by (simp_all add: dict_wf_def sample_common_def sample_custom_def)

text \<open>
  C3. When both value files load as dictionaries, a key that both define has, in the
  merged value set, the value of the shared defaults.
\<close>

theorem merge_shared_defaults_win:
  assumes "snd (load_yaml_file w COMMON_FILE_PATH) = Inr (PDict common)"
      and "snd (load_yaml_file w (valuesFile ini)) = Inr (PDict custom)"
      and "dict_wf common"
      and "dict_get common k = Some v"
      and "dict_get custom k = Some v'"
  shows "\<exists>merged. snd (merge_vars_file w ini) = Inr (PDict merged)
           \<and> dict_get merged k = Some v"
  using merge_vars_file_dicts [OF assms(1,2)] dict_get_update_present [OF assms(3,4)]
  by simp

theorem merge_shared_defaults_win_witness:
  "dict_get sample_common (PStr ''one'') = Some (PInt 1)
   \<and> dict_get sample_custom (PStr ''one'') = Some (PInt 5)
   \<and> (\<exists>merged. snd (merge_vars_file sample_world sample_init) = Inr (PDict merged)
          \<and> dict_get merged (PStr ''one'') = Some (PInt 1))"
proof -
  have c: "dict_get sample_common (PStr ''one'') = Some (PInt 1)"
    by (simp add: sample_common_def py_key_eq_def)
  have e: "dict_get sample_custom (PStr ''one'') = Some (PInt 5)"
    by (simp add: sample_custom_def py_key_eq_def)
  show ?thesis
    using merge_shared_defaults_win [OF sample_loads sample_dicts_wf(1) c e] c e by simp
qed

text \<open>
  C4. When both value files load as dictionaries, a key that only one of them defines
  keeps its value in the merged value set, the keys of the merged value set are pairwise
  different, and they are the keys of the two sources together.
\<close>

theorem merge_keys_pass_through:
  assumes "snd (load_yaml_file w COMMON_FILE_PATH) = Inr (PDict common)"
      and "snd (load_yaml_file w (valuesFile ini)) = Inr (PDict custom)"
      and "dict_wf common"
      and "dict_wf custom"
  shows "\<exists>merged. snd (merge_vars_file w ini) = Inr (PDict merged)
           \<and> (\<forall>k v. dict_get custom k = Some v \<and> dict_get common k = None
                  \<longrightarrow> dict_get merged k = Some v)
           \<and> (\<forall>k v. dict_get common k = Some v \<and> dict_get custom k = None
                  \<longrightarrow> dict_get merged k = Some v)
           \<and> distinct (norm_keys merged)
           \<and> set (norm_keys merged) = set (norm_keys custom) \<union> set (norm_keys common)"
proof -
  let ?m = "dict_update custom common"
  have "snd (merge_vars_file w ini) = Inr (PDict ?m)"
    using merge_vars_file_dicts [OF assms(1,2)] by simp
  moreover have "\<forall>k v. dict_get custom k = Some v \<and> dict_get common k = None
                  \<longrightarrow> dict_get ?m k = Some v"
    by (simp add: dict_get_update_absent)
  moreover have "\<forall>k v. dict_get common k = Some v \<and> dict_get custom k = None
                  \<longrightarrow> dict_get ?m k = Some v"
    using dict_get_update_present [OF assms(3)] by blast
  moreover have "distinct (norm_keys ?m)"
    using dict_wf_update [OF assms(4)] by (simp add: dict_wf_def)
  moreover have "set (norm_keys ?m) = set (norm_keys custom) \<union> set (norm_keys common)"
    by (rule norm_keys_update)
  ultimately show ?thesis by blast
qed

theorem merge_keys_pass_through_witness:
  "\<exists>merged. snd (merge_vars_file sample_world sample_init) = Inr (PDict merged)
     \<and> dict_get merged (PStr ''name'') = Some (PStr ''prod'')
     \<and> dict_get merged (PStr ''owner'') = Some (PStr ''ops'')
     \<and> distinct (norm_keys merged)
     \<and> set (norm_keys merged) = {PStr ''one'', PStr ''name'', PStr ''owner''}"
proof -
  from merge_keys_pass_through [OF sample_loads sample_dicts_wf]
  obtain merged where m: "snd (merge_vars_file sample_world sample_init) = Inr (PDict merged)"
    and a: "\<forall>k v. dict_get sample_custom k = Some v \<and> dict_get sample_common k = None
                  \<longrightarrow> dict_get merged k = Some v"
    and b: "\<forall>k v. dict_get sample_common k = Some v \<and> dict_get sample_custom k = None
                  \<longrightarrow> dict_get merged k = Some v"
    and d: "distinct (norm_keys merged)"
    and s: "set (norm_keys merged) = set (norm_keys sample_custom) \<union> set (norm_keys sample_common)"
    by blast
  have "dict_get merged (PStr ''name'') = Some (PStr ''prod'')"
    using a [rule_format, of "PStr ''name''" "PStr ''prod''"]
    by (simp add: sample_common_def sample_custom_def py_key_eq_def)
  moreover have "dict_get merged (PStr ''owner'') = Some (PStr ''ops'')"
    using b [rule_format, of "PStr ''owner''" "PStr ''ops''"]
    by (simp add: sample_common_def sample_custom_def py_key_eq_def)
  moreover have "set (norm_keys merged) = {PStr ''one'', PStr ''name'', PStr ''owner''}"
    using s by (auto simp: sample_common_def sample_custom_def)
  ultimately show ?thesis using m d by blast
qed

section \<open>The remote paths\<close>

lemma upt_0_6: "[0..<6] = [0, 1, 2, 3, 4, 5]"
  by code_simp

lemma id_generator_default:
  "id_generator g 6 (ascii_uppercase @ digits) =
     (Inr (map (\<lambda>i. (ascii_uppercase @ digits) ! (g i mod 36)) [0..<6]), (\<lambda>i. g (i + 6)))"
  by (simp add: id_generator_def ascii_uppercase_def digits_def)

lemma id_generator_length:
  "fst (id_generator g sz chars) = Inr s \<Longrightarrow> length s = sz"
  by (auto simp: id_generator_def split: if_splits)

lemma id_generator_chars:
  "fst (id_generator g sz chars) = Inr s \<Longrightarrow> set s \<subseteq> set chars"
  by (auto simp: id_generator_def split: if_splits)

lemma stack_exists_cases:
  "stack_exists w sn =
     (case boto3_client w ''cloudformation'' of
        Some e \<Rightarrow>
          (if is_ClientError e then ([Print (sn @ '' stack not found.'')], Inr False)
           else ([], Inl e))
      | None \<Rightarrow>
          (case cf_call w (Describe_stacks sn) of
             None \<Rightarrow> ([Remote (Describe_stacks sn), Print (sn @ '' stack found.'')], Inr True)
           | Some e \<Rightarrow>
               (if is_ClientError e
                then ([Remote (Describe_stacks sn), Print (sn @ '' stack not found.'')], Inr False)
                else ([Remote (Describe_stacks sn)], Inl e))))"
  by (simp add: stack_exists_def io_defs split: option.splits)

lemma create_change_set_cases:
  "fst (create_change_set w g sn body ps) =
     (let name = sn @ ''-'' @ map (\<lambda>i. (ascii_uppercase @ digits) ! (g i mod 36)) [0..<6];
          req = Remote (Create_change_set sn body ps name [''CAPABILITY_NAMED_IAM'']);
          wait = Remote (Waiter_wait ''change_set_create_complete''
                   [(''ChangeSetName'', name), (''StackName'', sn)] 10);
          failed = (\<lambda>es e. if is_Exception e
                     then (es @ [Print_error
                       ''An error has occurred during the creation of the change set: '' e],
                       Inl (SystemExit 2))
                     else (es, Inl e))
      in case boto3_client w ''cloudformation'' of
           Some e \<Rightarrow> failed [] e
         | None \<Rightarrow>
        (case get_waiter w ''change_set_create_complete'' of
           Some e \<Rightarrow> failed [] e
         | None \<Rightarrow>
        (case cf_call w (Create_change_set sn body ps name [''CAPABILITY_NAMED_IAM'']) of
           Some e \<Rightarrow> failed [req] e
         | None \<Rightarrow>
        (case cf_call w (Waiter_wait ''change_set_create_complete''
                   [(''ChangeSetName'', name), (''StackName'', sn)] 10) of
           Some e \<Rightarrow> failed [req, wait] e
         | None \<Rightarrow>
             ([req, wait,
               Print (''Change set '' @ name @ '' for stack '' @ sn @ '' created!'')],
              Inr ())))))"
  by (simp add: create_change_set_def id_generator_default io_defs Let_def split: option.splits)

lemma create_change_set_generator:
  "snd (create_change_set w g sn body ps) =
     (if boto3_client w ''cloudformation'' = None
         \<and> get_waiter w ''change_set_create_complete'' = None
      then (\<lambda>i. g (i + 6)) else g)"
  by (simp add: create_change_set_def id_generator_default io_defs Let_def split: option.splits)

lemma create_stack_cases:
  "create_stack w sn body ps =
     (let req = Remote (Create_stack sn body ps [''CAPABILITY_NAMED_IAM'']);
          wait = Remote (Waiter_wait ''stack_create_complete'' [(''StackName'', sn)] 10);
          failed = (\<lambda>es e. if is_Exception e
                     then (es @ [Print_error
                       ''An error has occurred during the creation of the stack: '' e],
                       Inl (SystemExit 2))
                     else (es, Inl e))
      in case boto3_client w ''cloudformation'' of
           Some e \<Rightarrow> failed [] e
         | None \<Rightarrow>
        (case get_waiter w ''stack_create_complete'' of
           Some e \<Rightarrow> failed [] e
         | None \<Rightarrow>
        (case cf_call w (Create_stack sn body ps [''CAPABILITY_NAMED_IAM'']) of
           Some e \<Rightarrow> failed [req] e
         | None \<Rightarrow>
        (case cf_call w (Waiter_wait ''stack_create_complete'' [(''StackName'', sn)] 10) of
           Some e \<Rightarrow> failed [req, wait] e
         | None \<Rightarrow> ([req, wait, Print (''Stack '' @ sn @ '' created!'')], Inr ())))))"
  by (simp add: create_stack_def io_defs Let_def split: option.splits)

lemma create_change_set_raises:
  "snd (fst (create_change_set w g sn body ps)) = Inl e \<Longrightarrow> \<not> is_Exception e"
  by (auto simp: create_change_set_cases Let_def split: option.splits if_splits)

lemma create_stack_raises:
  "snd (create_stack w sn body ps) = Inl e \<Longrightarrow> \<not> is_Exception e"
  by (auto simp: create_stack_cases Let_def split: option.splits if_splits)

lemma create_change_set_no_stack_request:
  "ev \<in> set (fst (fst (create_change_set w g sn body ps))) \<Longrightarrow> \<not> is_stack_request ev"
  by (auto simp: create_change_set_cases Let_def is_stack_request_def
      split: option.splits if_splits)

lemma create_stack_no_change_set_request:
  "ev \<in> set (fst (create_stack w sn body ps)) \<Longrightarrow> \<not> is_change_set_request ev"
  by (auto simp: create_stack_cases Let_def is_change_set_request_def
      split: option.splits if_splits)

lemma stack_exists_no_path_request:
  "ev \<in> set (fst (stack_exists w sn)) \<Longrightarrow> \<not> is_stack_request ev \<and> \<not> is_change_set_request ev"
  by (auto simp: stack_exists_cases is_stack_request_def is_change_set_request_def
      split: option.splits if_splits)

text \<open>
  C2 (as amended). With a client at hand, the prober reports the stack as present when
  the describe call succeeds and as absent when the call raises a ClientError, whatever
  its error code; an exception of another class leaves the prober as it is.
\<close>

theorem stack_exists_absent_on_any_client_error:
  assumes "boto3_client w ''cloudformation'' = None"
  shows "stack_exists w sn =
     (case cf_call w (Describe_stacks sn) of
        None \<Rightarrow> ([Remote (Describe_stacks sn), Print (sn @ '' stack found.'')], Inr True)
      | Some e \<Rightarrow>
          (if is_ClientError e
           then ([Remote (Describe_stacks sn), Print (sn @ '' stack not found.'')], Inr False)
           else ([Remote (Describe_stacks sn)], Inl e)))"
  using assms by (simp add: stack_exists_cases)

theorem stack_exists_absent_on_any_client_error_witness:
  "boto3_client sample_world ''cloudformation'' = None
   \<and> cf_call sample_world (Describe_stacks ''vpc'') = Some (ClientError ''ValidationError'')
   \<and> stack_exists sample_world ''vpc''
       = ([Remote (Describe_stacks ''vpc''), Print ''vpc stack not found.''], Inr False)"
proof -
  have h: "boto3_client sample_world ''cloudformation'' = None"
    by (simp add: sample_world_def)
  have c: "cf_call sample_world (Describe_stacks ''vpc'') = Some (ClientError ''ValidationError'')"
    by (simp add: sample_world_def sample_cf_call_def)
  show ?thesis
    using stack_exists_absent_on_any_client_error [OF h, of "''vpc''"] h c by simp
qed

text \<open>
  C2 as stated fails: a throttled describe call is reported as an absent stack, and no
  error is raised.
\<close>

theorem stack_exists_throttled_counterexample:
  "cf_call throttled_world (Describe_stacks ''vpc'') = Some (ClientError ''Throttling'')
   \<and> snd (stack_exists throttled_world ''vpc'') = Inr False"
  by (simp add: stack_exists_cases throttled_world_def sample_world_def)

text \<open>
  C5. When the prober reports the stack as present, \<open>deploy_stack\<close> goes on with
  \<open>create_change_set\<close> and issues no request of the stack-creation path; when it reports
  the stack as absent, it goes on with \<open>create_stack\<close> and issues no request of the
  change-set path.
\<close>

theorem deploy_stack_exactly_one_path:
  assumes "snd (stack_exists w (stackName ini)) = Inr found"
  shows "(found \<longrightarrow>
            deploy_stack w ini ps =
              (Print (''Checking if the '' @ stackName ini @ '' stack exists.'')
                 # fst (stack_exists w (stackName ini))
                 @ Print (''Creating change set for stack: '' @ stackName ini)
                 # fst (fst (create_change_set w (rng w) (stackName ini) (stackBody ini) ps)),
               snd (fst (create_change_set w (rng w) (stackName ini) (stackBody ini) ps)))
            \<and> (\<forall>ev \<in> set (fst (deploy_stack w ini ps)). \<not> is_stack_request ev))
       \<and> (\<not> found \<longrightarrow>
            deploy_stack w ini ps =
              (Print (''Checking if the '' @ stackName ini @ '' stack exists.'')
                 # fst (stack_exists w (stackName ini))
                 @ Print (''Stack '' @ stackName ini @ '' does not exists, creating it...'')
                 # fst (create_stack w (stackName ini) (stackBody ini) ps),
               snd (create_stack w (stackName ini) (stackBody ini) ps))
            \<and> (\<forall>ev \<in> set (fst (deploy_stack w ini ps)). \<not> is_change_set_request ev))"
proof -
  obtain es where se: "stack_exists w (stackName ini) = (es, Inr found)"
    using assms by (cases "stack_exists w (stackName ini)") simp
  have es: "\<forall>ev \<in> set es. \<not> is_stack_request ev \<and> \<not> is_change_set_request ev"
    using stack_exists_no_path_request [of _ w "stackName ini"] se by simp
  show ?thesis
  proof (cases found)
    case True
    obtain cs r where
      cc: "fst (create_change_set w (rng w) (stackName ini) (stackBody ini) ps) = (cs, r)"
      by (cases "fst (create_change_set w (rng w) (stackName ini) (stackBody ini) ps)")
    have r: "\<And>e. r = Inl e \<Longrightarrow> \<not> is_Exception e"
      using create_change_set_raises [of w "rng w" "stackName ini" "stackBody ini" ps] cc
      by simp
    have cs: "\<forall>ev \<in> set cs. \<not> is_stack_request ev"
      using create_change_set_no_stack_request
              [of _ w "rng w" "stackName ini" "stackBody ini" ps] cc
      by simp
    have eq: "deploy_stack w ini ps =
        (Print (''Checking if the '' @ stackName ini @ '' stack exists.'') # es
           @ Print (''Creating change set for stack: '' @ stackName ini) # cs, r)"
      using True se cc r by (cases r) (simp_all add: deploy_stack_def io_defs Let_def)
    show ?thesis using True se cc eq es cs by (auto simp: is_stack_request_def)
  next
    case False
    obtain cs r where cc: "create_stack w (stackName ini) (stackBody ini) ps = (cs, r)"
      by (cases "create_stack w (stackName ini) (stackBody ini) ps")
    have r: "\<And>e. r = Inl e \<Longrightarrow> \<not> is_Exception e"
      using create_stack_raises [of w "stackName ini" "stackBody ini" ps] cc by simp
    have cs: "\<forall>ev \<in> set cs. \<not> is_change_set_request ev"
      using create_stack_no_change_set_request [of _ w "stackName ini" "stackBody ini" ps] cc
      by simp
    have eq: "deploy_stack w ini ps =
        (Print (''Checking if the '' @ stackName ini @ '' stack exists.'') # es
           @ Print (''Stack '' @ stackName ini @ '' does not exists, creating it...'') # cs, r)"
      using False se cc r by (cases r) (simp_all add: deploy_stack_def io_defs Let_def)
    show ?thesis using False se cc eq es cs by (auto simp: is_change_set_request_def)
  qed
qed

theorem deploy_stack_exactly_one_path_witness:
  "snd (stack_exists present_world (stackName sample_init)) = Inr True
   \<and> snd (stack_exists sample_world (stackName sample_init)) = Inr False
   \<and> filter is_stack_request
         (fst (deploy_stack present_world sample_init sample_parameters)) = []
   \<and> filter is_change_set_request
         (fst (deploy_stack sample_world sample_init sample_parameters)) = []
   \<and> snd (deploy_stack present_world sample_init sample_parameters)
       = snd (fst (create_change_set present_world (rng present_world)
                     ''ct-prod-base-vpc-stack'' ''Resources: {}'' sample_parameters))
   \<and> snd (deploy_stack sample_world sample_init sample_parameters)
       = snd (create_stack sample_world ''ct-prod-base-vpc-stack'' ''Resources: {}''
                sample_parameters)"
proof -
  have p: "snd (stack_exists present_world (stackName sample_init)) = Inr True"
    by (simp add: stack_exists_cases present_world_def sample_world_def)
  have a: "snd (stack_exists sample_world (stackName sample_init)) = Inr False"
    by (simp add: stack_exists_cases sample_world_def sample_cf_call_def)
  have n: "stackName sample_init = ''ct-prod-base-vpc-stack''"
          "stackBody sample_init = ''Resources: {}''"
    by (simp_all add: sample_init_def)
  show ?thesis
    using deploy_stack_exactly_one_path [OF p, of sample_parameters]
          deploy_stack_exactly_one_path [OF a, of sample_parameters] p a n
    by (simp add: filter_empty_conv)
qed

lemma alphabet_length: "length (ascii_uppercase @ digits) = 36"
  by (simp add: ascii_uppercase_def digits_def)

lemma every_suffix_drawn:
  assumes "length s = 6" and "set s \<subseteq> set (ascii_uppercase @ digits)"
  shows "\<exists>g. map (\<lambda>i. (ascii_uppercase @ digits) ! (g i mod 36)) [0..<6] = s"
proof -
  have "\<forall>i. \<exists>k. i < 6 \<longrightarrow> k < 36 \<and> (ascii_uppercase @ digits) ! k = s ! i"
  proof
    fix i
    show "\<exists>k. i < 6 \<longrightarrow> k < 36 \<and> (ascii_uppercase @ digits) ! k = s ! i"
    proof (cases "i < 6")
      case True
      then have "s ! i \<in> set (ascii_uppercase @ digits)"
        using assms by (metis nth_mem subsetD)
      then obtain k where "k < length (ascii_uppercase @ digits)"
          and "(ascii_uppercase @ digits) ! k = s ! i"
        by (meson in_set_conv_nth)
      then show ?thesis by (metis alphabet_length)
    next
      case False
      then show ?thesis by simp
    qed
  qed
  then obtain g where g: "\<And>i. i < 6 \<Longrightarrow> g i < 36 \<and> (ascii_uppercase @ digits) ! g i = s ! i"
    by metis
  have "map (\<lambda>i. (ascii_uppercase @ digits) ! (g i mod 36)) [0..<6] = s"
    using assms(1) g by (intro nth_equalityI) auto
  then show ?thesis by blast
qed

text \<open>
  C7. Let \<open>create_change_set\<close> be called for the stack \<open>stack_name\<close> with the random
  generator in the state \<open>g\<close>, and let it issue a change-set creation request. Then the
  request names the change set by the stack name, a hyphen and a suffix of six
  characters; the \<open>i\<close>-th character of the suffix is the character of
  \<open>ascii_uppercase + digits\<close> that the \<open>i\<close>-th draw of the generator selects, so it is an
  uppercase letter or a digit. The call leaves the generator six draws further, and a
  following call of \<open>create_change_set\<close> in the same process builds its suffix from the
  next six draws. Every string of six such characters is the suffix for some state of the
  generator.
\<close>

theorem change_set_name_form:
  assumes "Remote (Create_change_set sn body ps name caps)
             \<in> set (fst (fst (create_change_set w g stack_name body' ps')))"
  shows "name = stack_name @ ''-''
                  @ map (\<lambda>i. (ascii_uppercase @ digits) ! (g i mod 36)) [0..<6]
         \<and> (\<exists>suffix. name = stack_name @ ''-'' @ suffix
                \<and> length suffix = 6
                \<and> set suffix \<subseteq> set (ascii_uppercase @ digits))
         \<and> snd (create_change_set w g stack_name body' ps') = (\<lambda>i. g (i + 6))
         \<and> (\<forall>sn2 body2 ps2 name2 caps2 stack_name2 body2' ps2'.
               Remote (Create_change_set sn2 body2 ps2 name2 caps2)
                 \<in> set (fst (fst (create_change_set w
                       (snd (create_change_set w g stack_name body' ps'))
                       stack_name2 body2' ps2')))
               \<longrightarrow> name2 = stack_name2 @ ''-''
                     @ map (\<lambda>i. (ascii_uppercase @ digits) ! (g (i + 6) mod 36)) [0..<6])
         \<and> (\<forall>s. length s = 6 \<and> set s \<subseteq> set (ascii_uppercase @ digits)
               \<longrightarrow> (\<exists>g'. \<forall>sn3 body3 ps3 name3 caps3.
                      Remote (Create_change_set sn3 body3 ps3 name3 caps3)
                        \<in> set (fst (fst (create_change_set w g' stack_name body' ps')))
                      \<longrightarrow> name3 = stack_name @ ''-'' @ s))"
proof -
  let ?A = "ascii_uppercase @ digits"
  have name_of: "n = s0 @ ''-'' @ map (\<lambda>i. ?A ! (h i mod 36)) [0..<6]"
    if "Remote (Create_change_set a b c n d) \<in> set (fst (fst (create_change_set w h s0 b' c')))"
    for a b c n d h s0 b' c'
    using that
    by (auto simp: create_change_set_cases Let_def split: option.splits if_splits)
  have ready: "boto3_client w ''cloudformation'' = None
               \<and> get_waiter w ''change_set_create_complete'' = None"
    using assms
    by (auto simp: create_change_set_cases Let_def split: option.splits if_splits)
  have n: "name = stack_name @ ''-'' @ map (\<lambda>i. ?A ! (g i mod 36)) [0..<6]"
    using name_of [OF assms] .
  have len: "length (map (\<lambda>i. ?A ! (g i mod 36)) [0..<6]) = 6"
    by simp
  have chars: "set (map (\<lambda>i. ?A ! (g i mod 36)) [0..<6]) \<subseteq> set ?A"
  proof
    fix c assume "c \<in> set (map (\<lambda>i. ?A ! (g i mod 36)) [0..<6])"
    then obtain i where c: "c = ?A ! (g i mod 36)" by auto
    have "g i mod 36 < length ?A"
      unfolding alphabet_length by simp
    then show "c \<in> set ?A"
      unfolding c by (rule nth_mem)
  qed
  have gen: "snd (create_change_set w g stack_name body' ps') = (\<lambda>i. g (i + 6))"
    using ready by (simp add: create_change_set_generator)
  have next_call: "\<forall>sn2 body2 ps2 name2 caps2 stack_name2 body2' ps2'.
               Remote (Create_change_set sn2 body2 ps2 name2 caps2)
                 \<in> set (fst (fst (create_change_set w
                       (snd (create_change_set w g stack_name body' ps'))
                       stack_name2 body2' ps2')))
               \<longrightarrow> name2 = stack_name2 @ ''-''
                     @ map (\<lambda>i. ?A ! (g (i + 6) mod 36)) [0..<6]"
    unfolding gen using name_of by blast
  have any: "\<forall>s. length s = 6 \<and> set s \<subseteq> set ?A
               \<longrightarrow> (\<exists>g'. \<forall>sn3 body3 ps3 name3 caps3.
                      Remote (Create_change_set sn3 body3 ps3 name3 caps3)
                        \<in> set (fst (fst (create_change_set w g' stack_name body' ps')))
                      \<longrightarrow> name3 = stack_name @ ''-'' @ s)"
  proof (intro allI impI)
    fix s assume "length s = 6 \<and> set s \<subseteq> set ?A"
    then obtain g' where g': "map (\<lambda>i. ?A ! (g' i mod 36)) [0..<6] = s"
      using every_suffix_drawn by blast
    show "\<exists>g'. \<forall>sn3 body3 ps3 name3 caps3.
            Remote (Create_change_set sn3 body3 ps3 name3 caps3)
              \<in> set (fst (fst (create_change_set w g' stack_name body' ps')))
            \<longrightarrow> name3 = stack_name @ ''-'' @ s"
      using name_of [of _ _ _ _ _ g' stack_name body' ps'] g' by (intro exI [of _ g']) auto
  qed
  show ?thesis
    using n len chars gen next_call any by blast
qed

theorem change_set_name_form_witness:
  "Remote (Create_change_set ''vpc'' ''body'' [] ''vpc-DKRY5C'' [''CAPABILITY_NAMED_IAM''])
     \<in> set (fst (fst (create_change_set present_world (\<lambda>i. 7 * i + 3) ''vpc'' ''body'' [])))
   \<and> ''vpc-DKRY5C'' = ''vpc'' @ ''-''
         @ map (\<lambda>i. (ascii_uppercase @ digits) ! ((7 * i + 3) mod 36)) [0..<6]
   \<and> Remote (Create_change_set ''vpc'' ''body'' [] ''vpc-JQX4BI'' [''CAPABILITY_NAMED_IAM''])
     \<in> set (fst (fst (create_change_set present_world
           (snd (create_change_set present_world (\<lambda>i. 7 * i + 3) ''vpc'' ''body'' []))
           ''vpc'' ''body'' [])))"
proof -
  have m: "Remote (Create_change_set ''vpc'' ''body'' [] ''vpc-DKRY5C'' [''CAPABILITY_NAMED_IAM''])
     \<in> set (fst (fst (create_change_set present_world (\<lambda>i. 7 * i + 3) ''vpc'' ''body'' [])))"
    by (simp add: create_change_set_cases Let_def present_world_def sample_world_def
        ascii_uppercase_def digits_def upt_0_6)
  have g: "snd (create_change_set present_world (\<lambda>i. 7 * i + 3) ''vpc'' ''body'' [])
             = (\<lambda>i. 7 * (i + 6) + 3)"
    by (simp add: create_change_set_generator present_world_def sample_world_def)
  have m2: "Remote (Create_change_set ''vpc'' ''body'' [] ''vpc-JQX4BI'' [''CAPABILITY_NAMED_IAM''])
     \<in> set (fst (fst (create_change_set present_world
           (snd (create_change_set present_world (\<lambda>i. 7 * i + 3) ''vpc'' ''body'' []))
           ''vpc'' ''body'' [])))"
    unfolding g
    by (simp add: create_change_set_cases Let_def present_world_def sample_world_def
        ascii_uppercase_def digits_def upt_0_6)
  show ?thesis
    using change_set_name_form [OF m] m m2 by blast
qed

section \<open>Events and exceptions of composed computations\<close>







text \<open>
  A function whose body is guarded by \<open>except Exception\<close> with a handler that prints and
  calls \<open>sys.exit(2)\<close> raises nothing that is an \<open>Exception\<close>.
\<close>

lemma guarded_raises:
  assumes "snd (try_except m is_Exception
             (\<lambda>e. bind_io (emit (Print_error p e)) (\<lambda>_. sys_exit 2))) = Inl e"
  shows "\<not> is_Exception e"
  using assms by (cases m; cases "snd m") (auto simp: io_defs split: if_splits)

lemma check_file_cases:
  "check_file w file =
     (if isfile w file then ([], Inr True)
      else ([Print_error (''An error has occurred checking '' @ file @ '': '')
               (Exception (''File '' @ file @ '' does not exists!''))],
            Inl (SystemExit 2)))"
  by (simp add: check_file_def io_defs)

lemma init_variables_cases:
  "init_variables w env t =
     (if \<not> isfile w (values_file_of env) then (fst (check_file w (values_file_of env)), Inl (SystemExit 2))
      else if \<not> isfile w t then (fst (check_file w t), Inl (SystemExit 2))
      else if \<not> isfile w (json_file_of t)
      then (fst (check_file w (json_file_of t)), Inl (SystemExit 2))
      else (case read_text w t of
              Inl e \<Rightarrow>
                (if is_Exception e
                 then ([Print_error ''An error has occurred in init_variables: '' e],
                       Inl (SystemExit 2))
                 else ([], Inl e))
            | Inr stack_body \<Rightarrow>
                ([], Inr \<lparr>valuesFile = values_file_of env,
                           templateFileName = t_file_name_of t,
                           jsonFile = json_file_of t,
                           stackName = stack_name_of env t,
                           stackBody = stack_body\<rparr>)))"
  by (simp add: init_variables_def check_file_cases io_defs Let_def values_file_of_def
      json_file_of_def path_of_def clean_name_of_def t_file_name_of_def stack_name_of_def
      split: sum.splits)

lemma init_variables_raises: "snd (init_variables w env t) = Inl e \<Longrightarrow> \<not> is_Exception e"
  unfolding init_variables_def by (rule guarded_raises)

lemma merge_vars_file_raises: "snd (merge_vars_file w ini) = Inl e \<Longrightarrow> \<not> is_Exception e"
  unfolding merge_vars_file_def by (rule guarded_raises)

lemma fill_json_raises: "snd (fill_json w ini) = Inl e \<Longrightarrow> \<not> is_Exception e"
  unfolding fill_json_def by (rule guarded_raises)

lemma save_to_file_raises: "snd (save_to_file w n c x) = Inl e \<Longrightarrow> \<not> is_Exception e"
  unfolding save_to_file_def by (rule guarded_raises)

lemma deploy_stack_raises: "snd (deploy_stack w ini ps) = Inl e \<Longrightarrow> \<not> is_Exception e"
  unfolding deploy_stack_def by (rule guarded_raises)




lemma scan_opts_cases:
  "scan_opts h opts st = ([Print h], Inl (SystemExit 2)) \<or> (\<exists>st'. scan_opts h opts st = ([], Inr st'))"
  by (induction h opts st rule: scan_opts.induct) (simp_all add: io_defs)

lemma scan_opts_help:
  assumes "\<exists>arg. (''-h'', arg) \<in> set opts \<or> (''--help'', arg) \<in> set opts"
  shows "scan_opts h opts st = ([Print h], Inl (SystemExit 2))"
  using assms
proof (induction opts arbitrary: st)
  case Nil
  then show ?case by simp
next
  case (Cons p opts)
  obtain opt arg where p: "p = (opt, arg)" by (cases p)
  obtain e t a where st: "st = (e, t, a)" by (cases st)
  show ?case
  proof (cases "opt = ''-h'' \<or> opt = ''--help''")
    case True
    then show ?thesis unfolding p st by (simp add: io_defs)
  next
    case False
    with Cons.prems p
    have "\<exists>arg. (''-h'', arg) \<in> set opts \<or> (''--help'', arg) \<in> set opts"
      by (simp add: ex_disj_distrib) blast
    then have "\<And>st'. scan_opts h opts st' = ([Print h], Inl (SystemExit 2))"
      using Cons.IH by blast
    then show ?thesis unfolding p st using False by simp
  qed
qed

section \<open>The orchestrator\<close>

lemma bind_io_return: "bind_io m return = m"
  by (cases m; cases "snd m") (auto simp: bind_io_def return_def)

lemma bind_io_return_unit: "bind_io m (\<lambda>_. return ()) = (m :: unit io)"
  by (cases m; cases "snd m") (auto simp: bind_io_def return_def)

lemma return_bind_io: "bind_io (return x) f = f x"
  by (simp add: return_def)

lemma bind_io_nil: "bind_io ([], Inr x) f = f x"
  by simp

lemma bind_io_raises:
  "snd (bind_io m f) = Inl e \<Longrightarrow> snd m = Inl e \<or> (\<exists>x. snd m = Inr x \<and> snd (f x) = Inl e)"
  by (cases m; cases "snd m") (auto simp: bind_io_def split_beta)

lemma try_except_pass:
  "(\<And>e. snd m = Inl e \<Longrightarrow> \<not> c e) \<Longrightarrow> try_except m c h = m"
  by (cases m; cases "snd m") (auto simp: try_except_def)

lemma main_actions:
  fixes A B :: "unit io"
  assumes "action \<in> set Actions_values"
  shows "bind_io (if action = ''deploy'' then A else return ())
           (\<lambda>_. bind_io (if action = ''fill'' then B else return ()) return)
         = (if action = ''deploy'' then A else B)"
proof (cases "action = ''deploy''")
  case True
  then show ?thesis by (simp add: bind_io_return bind_io_return_unit return_bind_io)
next
  case False
  with assms have "action = ''fill''" by (simp add: Actions_values_def)
  then show ?thesis by (simp add: bind_io_return bind_io_return_unit return_bind_io)
qed

lemma scan_opts_returned:
  assumes "snd (scan_opts h opts st) = Inr st'"
  shows "scan_opts h opts st = ([], Inr st')"
  using scan_opts_cases [of h opts st] assms by auto

lemma main_parsed:
  assumes "getopt w args shortopts longopts = Inr (opts, rest)"
      and "snd (scan_opts (usage prog) opts ([], [], [])) = Inr (env, t, action)"
  shows "main w (prog # args) =
     (case args_error env t action of
        Some e \<Rightarrow> ([Print_error ''An error has occurred: '' e, Print_traceback e],
                    Inl (SystemExit 2))
      | None \<Rightarrow>
          bind_io (init_variables w env t) (\<lambda>ini.
            if action = ''deploy''
            then bind_io (fill_json w ini) (\<lambda>(filled_json, ini').
                   deploy_stack w ini' filled_json)
            else bind_io (fill_json w ini) (\<lambda>(filled_json, ini').
                   save_to_file w (stackName ini') filled_json ''json'')))"
proof -
  have g: "getopt w args ''he:t:a:'' [''help'', ''environment='', ''template='', ''action='']
             = Inr (opts, rest)"
    using assms(1) by (simp add: shortopts_def longopts_def)
  have sc: "scan_opts (prog @ '' -e <environment> -t <template> -a <fill|deploy>'') opts
              ([], [], []) = ([], Inr (env, t, action))"
    using scan_opts_returned [OF assms(2)] by (simp add: usage_def)
  show ?thesis
  proof (cases "args_error env t action")
    case (Some e)
    then show ?thesis
      by (simp add: main_def g sc io_defs args_error_def split: if_splits)
  next
    case None
    then have a: "action \<in> set Actions_values" and ne: "action \<noteq> []" "env \<noteq> []" "t \<noteq> []"
      by (simp_all add: args_error_def split: if_splits)
    let ?run = "bind_io (init_variables w env t) (\<lambda>ini.
            if action = ''deploy''
            then bind_io (fill_json w ini) (\<lambda>(filled_json, ini').
                   deploy_stack w ini' filled_json)
            else bind_io (fill_json w ini) (\<lambda>(filled_json, ini').
                   save_to_file w (stackName ini') filled_json ''json''))"
    have pass: "\<not> is_Exception e" if "snd ?run = Inl e" for e
      using that
      by (auto dest!: bind_io_raises split: if_splits prod.splits
          dest: init_variables_raises fill_json_raises deploy_stack_raises save_to_file_raises)
    have "main w (prog # args) = try_except ?run is_Exception
            (\<lambda>e. bind_io (emit (Print_error ''An error has occurred: '' e)) (\<lambda>_.
                  bind_io (emit (Print_traceback e)) (\<lambda>_. sys_exit 2)))"
      using a ne by (simp add: main_def g sc lift_def bind_io_nil main_actions del: bind_io_Inr)
    also have "\<dots> = ?run"
      using pass by (rule try_except_pass)
    finally show ?thesis using None by simp
  qed
qed




text \<open>
  C10. When the parsed options contain \<open>-h\<close> or \<open>--help\<close>, \<open>main\<close> prints the usage
  string and nothing else, and the process ends with exit status 2.
\<close>

theorem help_prints_usage_and_exits_2:
  assumes "getopt w args shortopts longopts = Inr (opts, rest)"
      and "\<exists>arg. (''-h'', arg) \<in> set opts \<or> (''--help'', arg) \<in> set opts"
  shows "main w (prog # args) = ([Print (usage prog)], Inl (SystemExit 2))
         \<and> exit_status (main w (prog # args)) = 2"
proof -
  have g: "getopt w args ''he:t:a:'' [''help'', ''environment='', ''template='', ''action='']
             = Inr (opts, rest)"
    using assms(1) by (simp add: shortopts_def longopts_def)
  have sc: "scan_opts (prog @ '' -e <environment> -t <template> -a <fill|deploy>'') opts
              ([], [], []) = ([Print (usage prog)], Inl (SystemExit 2))"
    using scan_opts_help [OF assms(2)] by (simp add: usage_def)
  have "main w (prog # args) = ([Print (usage prog)], Inl (SystemExit 2))"
    by (simp add: main_def g sc lift_def)
  then show ?thesis by (simp add: exit_status_def)
qed

theorem help_prints_usage_and_exits_2_witness:
  "getopt sample_world [''-e'', ''prod'', ''--help''] shortopts longopts
     = Inr ([(''-e'', ''prod''), (''--help'', [])], [])
   \<and> main sample_world [''deploy.py'', ''-e'', ''prod'', ''--help'']
     = ([Print ''deploy.py -e <environment> -t <template> -a <fill|deploy>''],
        Inl (SystemExit 2))
   \<and> exit_status (main sample_world [''deploy.py'', ''-e'', ''prod'', ''--help'']) = 2"
proof -
  have g: "getopt sample_world [''-e'', ''prod'', ''--help''] shortopts longopts
     = Inr ([(''-e'', ''prod''), (''--help'', [])], [])"
    by (simp add: sample_world_def sample_getopt_def)
  have h: "\<exists>arg. (''-h'', arg) \<in> set [(''-e'', ''prod''), (''--help'', [])]
             \<or> (''--help'', arg) \<in> set [(''-e'', ''prod''), (''--help'', [])]"
    by simp
  show ?thesis
    using help_prints_usage_and_exits_2 [OF g h, of "''deploy.py''"] g
    by (simp add: usage_def exit_status_def)
qed

text \<open>
  When the options are parsed and one of the three files that \<open>init_variables\<close> checks is
  missing (the values file of the environment, the template file, the parameter template
  under the name \<open>init_variables\<close> computes for it), the process ends with exit status 2,
  and all it has done is print: it has issued no request to the remote service.
\<close>

lemma missing_checked_file_exits_2:
  assumes "getopt w args shortopts longopts = Inr (opts, rest)"
      and "snd (scan_opts (usage prog) opts ([], [], [])) = Inr (env, t, action)"
      and "\<not> isfile w (values_file_of env) \<or> \<not> isfile w t \<or> \<not> isfile w (json_file_of t)"
  shows "exit_status (main w (prog # args)) = 2
         \<and> list_all is_print (fst (main w (prog # args)))
         \<and> list_all (\<lambda>ev. \<not> is_remote ev) (fst (main w (prog # args)))"
proof (cases "args_error env t action")
  case (Some e)
  then show ?thesis
    by (simp add: main_parsed [OF assms(1,2)] exit_status_def is_print_def is_remote_def)
next
  case None
  let ?missing = "\<lambda>f. ([Print_error (''An error has occurred checking '' @ f @ '': '')
                           (Exception (''File '' @ f @ '' does not exists!''))],
                       Inl (SystemExit 2))"
  have "\<exists>f. init_variables w env t = ?missing f"
  proof (cases "isfile w (values_file_of env)")
    case False
    then show ?thesis
      by (intro exI [of _ "values_file_of env"]) (simp add: init_variables_cases check_file_cases)
  next
    case v: True
    show ?thesis
    proof (cases "isfile w t")
      case False
      with v show ?thesis
        by (intro exI [of _ t]) (simp add: init_variables_cases check_file_cases)
    next
      case True
      with v assms(3) show ?thesis
        by (intro exI [of _ "json_file_of t"]) (simp add: init_variables_cases check_file_cases)
    qed
  qed
  then obtain f where ini: "init_variables w env t = ?missing f" by blast
  show ?thesis
    by (simp add: main_parsed [OF assms(1,2)] None ini exit_status_def is_print_def
        is_remote_def)
qed

lemma missing_checked_file_exits_2_sample:
  "isfile sample_world (values_file_of ''staging'') = False
   \<and> exit_status (main sample_world
        [''deploy.py'', ''-e'', ''staging'', ''-t'', ''templates/vpc.yaml'', ''-a'', ''deploy'']) = 2
   \<and> filter is_remote (fst (main sample_world
        [''deploy.py'', ''-e'', ''staging'', ''-t'', ''templates/vpc.yaml'', ''-a'', ''deploy''])) = []"
proof -
  let ?args = "[''-e'', ''staging'', ''-t'', ''templates/vpc.yaml'', ''-a'', ''deploy'']"
  let ?opts = "[(''-e'', ''staging''), (''-t'', ''templates/vpc.yaml''), (''-a'', ''deploy'')]"
  have g: "getopt sample_world ?args shortopts longopts = Inr (?opts, [])"
    by (simp add: sample_world_def sample_getopt_def)
  have sc: "snd (scan_opts (usage ''deploy.py'') ?opts ([], [], []))
              = Inr (''staging'', ''templates/vpc.yaml'', ''deploy'')"
    by (simp add: return_def)
  have m: "\<not> isfile sample_world (values_file_of ''staging'')"
    by (simp add: sample_world_def values_file_of_def)
  then have m': "\<not> isfile sample_world (values_file_of ''staging'')
                 \<or> \<not> isfile sample_world ''templates/vpc.yaml''
                 \<or> \<not> isfile sample_world (json_file_of ''templates/vpc.yaml'')"
    by simp
  show ?thesis
    using missing_checked_file_exits_2 [OF g sc m'] m
    by (simp add: filter_empty_conv list_all_iff)
qed

section \<open>Rendering and saving\<close>

lemma fill_json_rendered:
  assumes "read_text w (jsonFile ini) = Inr parameter_file"
      and "snd (merge_vars_file w ini) = Inr values"
      and "jinja2_render w parameter_file values = Inr rendered"
  shows "fill_json w ini =
     (let before = fst (merge_vars_file w ini) @ [Print_value values, Eval rendered]
                     @ fst (py_eval w rendered ini parameter_file values);
          failed = (\<lambda>e. (before @ [Print_error
                               ''An error has occurred filling the json file: '' e],
                          Inl (SystemExit 2)))
      in case snd (py_eval w rendered ini parameter_file values) of
           Inl e \<Rightarrow> if is_Exception e then failed e else (before, Inl e)
         | Inr (evaluated, ini') \<Rightarrow>
             (case py_list evaluated of
                Inl e \<Rightarrow> failed e
              | Inr parameters \<Rightarrow> (before, Inr (parameters, ini'))))"
proof -
  obtain es where m: "merge_vars_file w ini = (es, Inr values)"
    using assms(2) by (cases "merge_vars_file w ini") simp
  obtain evs r where e: "py_eval w rendered ini parameter_file values = (evs, r)"
    by (cases "py_eval w rendered ini parameter_file values")
  show ?thesis
    by (cases r)
       (auto simp: fill_json_def assms(1,3) m e io_defs py_list_def Let_def
             split: option.splits)
qed

text \<open>
  C1 (as amended). When the parameter template is read, the value files are merged and
  the template is rendered, \<open>fill_json\<close> hands the rendered text to Python's \<open>eval\<close>:
  what the evaluation does is part of the run, the ParameterList is \<open>list\<close> of what
  \<open>eval\<close> returns, and an exception of the evaluation ends the run with \<open>sys.exit(2)\<close>.
\<close>

theorem fill_json_evaluates_rendered_text:
  assumes "read_text w (jsonFile ini) = Inr parameter_file"
      and "snd (merge_vars_file w ini) = Inr values"
      and "jinja2_render w parameter_file values = Inr rendered"
  shows "Eval rendered \<in> set (fst (fill_json w ini))
         \<and> set (fst (py_eval w rendered ini parameter_file values))
               \<subseteq> set (fst (fill_json w ini))
         \<and> snd (fill_json w ini) =
             (case snd (py_eval w rendered ini parameter_file values) of
                Inl e \<Rightarrow> if is_Exception e then Inl (SystemExit 2) else Inl e
              | Inr (evaluated, ini') \<Rightarrow>
                  (case py_list evaluated of
                     Inl e \<Rightarrow> Inl (SystemExit 2)
                   | Inr parameters \<Rightarrow> Inr (parameters, ini')))"
  by (auto simp: fill_json_rendered [OF assms] Let_def split: sum.splits prod.splits)

lemma sample_merge:
  "merge_vars_file sample_world sample_init =
     ([], Inr (PDict [(PStr ''one'', PInt 1), (PStr ''name'', PStr ''prod''),
                      (PStr ''owner'', PStr ''ops'')]))"
  by (simp add: merge_vars_file_dicts [OF sample_loads] sample_common_def sample_custom_def
      py_key_eq_def)

lemma sample_fill_json:
  "fill_json sample_world sample_init =
     ([Print_value (PDict [(PStr ''one'', PInt 1), (PStr ''name'', PStr ''prod''),
                           (PStr ''owner'', PStr ''ops'')]),
       Eval sample_rendered], Inr (sample_parameters, sample_init))"
proof -
  have r: "read_text sample_world (jsonFile sample_init)
             = Inr ''[dict(ParameterKey=str(1), ParameterValue=str({{ one }} + 1))]''"
    by (simp add: sample_world_def sample_init_def sample_read_text_def)
  have m: "snd (merge_vars_file sample_world sample_init)
             = Inr (PDict [(PStr ''one'', PInt 1), (PStr ''name'', PStr ''prod''),
                           (PStr ''owner'', PStr ''ops'')])"
    by (simp add: sample_merge)
  have j: "jinja2_render sample_world
             ''[dict(ParameterKey=str(1), ParameterValue=str({{ one }} + 1))]''
             (PDict [(PStr ''one'', PInt 1), (PStr ''name'', PStr ''prod''),
                     (PStr ''owner'', PStr ''ops'')])
           = Inr sample_rendered"
    by (simp add: sample_world_def sample_render_def py_key_eq_def)
  have e: "\<And>i p v. py_eval sample_world sample_rendered i p v
             = ([], Inr (PList sample_parameters, i))"
    by (simp add: sample_world_def sample_eval_def)
  show ?thesis
    by (simp add: fill_json_rendered [OF r m j] e py_list_def sample_merge Let_def)
qed

theorem fill_json_evaluates_rendered_text_witness:
  "Eval sample_rendered \<in> set (fst (fill_json sample_world sample_init))
   \<and> snd (fill_json sample_world sample_init) = Inr (sample_parameters, sample_init)"
proof -
  have r: "read_text sample_world (jsonFile sample_init)
             = Inr ''[dict(ParameterKey=str(1), ParameterValue=str({{ one }} + 1))]''"
    by (simp add: sample_world_def sample_init_def sample_read_text_def)
  have m: "snd (merge_vars_file sample_world sample_init)
             = Inr (PDict [(PStr ''one'', PInt 1), (PStr ''name'', PStr ''prod''),
                           (PStr ''owner'', PStr ''ops'')])"
    by (simp add: sample_merge)
  have j: "jinja2_render sample_world
             ''[dict(ParameterKey=str(1), ParameterValue=str({{ one }} + 1))]''
             (PDict [(PStr ''one'', PInt 1), (PStr ''name'', PStr ''prod''),
                     (PStr ''owner'', PStr ''ops'')])
           = Inr sample_rendered"
    by (simp add: sample_world_def sample_render_def py_key_eq_def)
  have e: "\<And>i p v. py_eval sample_world sample_rendered i p v
             = ([], Inr (PList sample_parameters, i))"
    by (simp add: sample_world_def sample_eval_def)
  show ?thesis
    using fill_json_evaluates_rendered_text [OF r m j] e by (simp add: py_list_def)
qed

text \<open>
  C1 as stated fails: in the sample world the rendered text is a Python expression, not
  JSON or YAML data, and \<open>fill_json\<close> passes it to \<open>eval\<close>.
\<close>

theorem fill_json_eval_counterexample:
  "Eval ''[dict(ParameterKey=str(1), ParameterValue=str(1 + 1))]''
     \<in> set (fst (fill_json sample_world sample_init))"
  by (simp add: sample_fill_json sample_rendered_def)










section \<open>A parameter template that is missing\<close>

lemma shadowed_init_variables:
  "init_variables shadowed_world ''prod'' ''templates/db.yml.yaml'' =
     ([], Inr \<lparr>valuesFile = ''cf_vars/prod.yml'', templateFileName = ''db.yml.yaml'',
                jsonFile = ''templates/db.json'', stackName = ''ct-prod-base-db-stack'',
                stackBody = ''Resources: {}''\<rparr>)"
  by (simp add: init_variables_cases values_file_of_def json_file_of_def path_of_def
      clean_name_of_def t_file_name_of_def stack_name_of_def shadowed_world_def
      sample_world_def)

text \<open>
  C6 fails on the code at the template \<open>templates/db.yml.yaml\<close>: its parameter template
  \<open>templates/db.yml.json\<close> is missing, but \<open>init_variables\<close> checks
  \<open>templates/db.json\<close> in its place, finds it, and the run deploys: it ends with exit
  status 0 after three requests to the remote service.
\<close>

theorem missing_parameter_template_still_deploys:
  "isfile shadowed_world ''templates/db.yml.json'' = False
   \<and> exit_status (main shadowed_world
        [''deploy.py'', ''-e'', ''prod'', ''-t'', ''templates/db.yml.yaml'', ''-a'', ''deploy''])
       = 0
   \<and> filter is_remote (fst (main shadowed_world
        [''deploy.py'', ''-e'', ''prod'', ''-t'', ''templates/db.yml.yaml'', ''-a'', ''deploy'']))
       = [Remote (Describe_stacks ''ct-prod-base-db-stack''),
          Remote (Create_stack ''ct-prod-base-db-stack'' ''Resources: {}'' sample_parameters
                    [''CAPABILITY_NAMED_IAM'']),
          Remote (Waiter_wait ''stack_create_complete''
                    [(''StackName'', ''ct-prod-base-db-stack'')] 10)]"
proof -
  let ?args = "[''-e'', ''prod'', ''-t'', ''templates/db.yml.yaml'', ''-a'', ''deploy'']"
  let ?opts = "[(''-e'', ''prod''), (''-t'', ''templates/db.yml.yaml''), (''-a'', ''deploy'')]"
  let ?vals = "PDict [(PStr ''one'', PInt 1), (PStr ''name'', PStr ''prod''),
                        (PStr ''owner'', PStr ''ops'')]"
  let ?template = "''[dict(ParameterKey=str(1), ParameterValue=str({{ one }} + 1))]''"
  let ?ini = "\<lparr>valuesFile = ''cf_vars/prod.yml'', templateFileName = ''db.yml.yaml'',
               jsonFile = ''templates/db.json'', stackName = ''ct-prod-base-db-stack'',
               stackBody = ''Resources: {}''\<rparr>"
  have g: "getopt shadowed_world ?args shortopts longopts = Inr (?opts, [])"
    by (simp add: shadowed_world_def sample_world_def sample_getopt_def)
  have sc: "snd (scan_opts (usage ''deploy.py'') ?opts ([], [], []))
              = Inr (''prod'', ''templates/db.yml.yaml'', ''deploy'')"
    by (simp add: return_def)
  have a: "args_error ''prod'' ''templates/db.yml.yaml'' ''deploy'' = None"
    by (simp add: args_error_def Actions_values_def)
  have mg: "merge_vars_file shadowed_world ?ini = ([], Inr ?vals)"
    by (simp add: merge_vars_file_def load_yaml_file_def COMMON_FILE_PATH_def io_defs
        shadowed_world_def sample_world_def sample_read_text_def sample_yaml_def
        py_update_def py_key_eq_def sample_common_def sample_custom_def)
  have r: "read_text shadowed_world (jsonFile ?ini) = Inr ?template"
    by (simp add: shadowed_world_def sample_world_def sample_read_text_def)
  have m: "snd (merge_vars_file shadowed_world ?ini) = Inr ?vals"
    by (simp add: mg)
  have j: "jinja2_render shadowed_world ?template ?vals = Inr sample_rendered"
    by (simp add: shadowed_world_def sample_world_def sample_render_def py_key_eq_def)
  have e: "py_eval shadowed_world sample_rendered ?ini ?template ?vals
             = ([], Inr (PList sample_parameters, ?ini))"
    by (simp add: shadowed_world_def sample_world_def sample_eval_def)
  have f: "fill_json shadowed_world ?ini =
             ([Print_value ?vals, Eval sample_rendered], Inr (sample_parameters, ?ini))"
    by (simp add: fill_json_rendered [OF r m j] e py_list_def mg Let_def)
  have d: "deploy_stack shadowed_world ?ini sample_parameters =
             ([Print ''Checking if the ct-prod-base-db-stack stack exists.'',
               Remote (Describe_stacks ''ct-prod-base-db-stack''),
               Print ''ct-prod-base-db-stack stack not found.'',
               Print ''Stack ct-prod-base-db-stack does not exists, creating it...'',
               Remote (Create_stack ''ct-prod-base-db-stack'' ''Resources: {}''
                         sample_parameters [''CAPABILITY_NAMED_IAM'']),
               Remote (Waiter_wait ''stack_create_complete''
                         [(''StackName'', ''ct-prod-base-db-stack'')] 10),
               Print ''Stack ct-prod-base-db-stack created!''],
              Inr ())"
    by (simp add: deploy_stack_def stack_exists_cases create_stack_cases Let_def io_defs
        shadowed_world_def sample_world_def sample_cf_call_def)
  have run: "main shadowed_world (''deploy.py'' # ?args) =
          ([Print_value ?vals, Eval sample_rendered,
            Print ''Checking if the ct-prod-base-db-stack stack exists.'',
            Remote (Describe_stacks ''ct-prod-base-db-stack''),
            Print ''ct-prod-base-db-stack stack not found.'',
            Print ''Stack ct-prod-base-db-stack does not exists, creating it...'',
            Remote (Create_stack ''ct-prod-base-db-stack'' ''Resources: {}''
                      sample_parameters [''CAPABILITY_NAMED_IAM'']),
            Remote (Waiter_wait ''stack_create_complete''
                      [(''StackName'', ''ct-prod-base-db-stack'')] 10),
            Print ''Stack ct-prod-base-db-stack created!''],
           Inr ())"
    by (simp add: main_parsed [OF g sc] a shadowed_init_variables f d)
  have "isfile shadowed_world ''templates/db.yml.json'' = False"
    by (simp add: shadowed_world_def sample_world_def)
  then show ?thesis
    by (simp add: run exit_status_def is_remote_def)
qed

section \<open>The names computed from the template path\<close>

lemma py_split_length:
  "length (py_split sep s) = Suc (length (filter (\<lambda>c. c = sep) s))"
  by (induction s) (auto split: list.splits)

lemma py_split_nonempty: "py_split sep s \<noteq> []"
  using py_split_length [of sep s] by auto

lemma py_split_no_sep: "sep \<notin> set s \<Longrightarrow> py_split sep s = [s]"
  by (induction s) auto

lemma last_py_split_append:
  "last (py_split sep (xs @ sep # ys)) = last (py_split sep ys)"
proof (induction xs)
  case Nil
  then show ?case by (simp add: py_split_nonempty)
next
  case (Cons c xs)
  have "2 \<le> length (py_split sep (xs @ sep # ys))"
    by (simp add: py_split_length)
  then obtain p q ps where "py_split sep (xs @ sep # ys) = p # q # ps"
    by (cases "py_split sep (xs @ sep # ys)"; cases "tl (py_split sep (xs @ sep # ys))") auto
  with Cons show ?case by auto
qed

lemma t_file_name_of_append:
  assumes "CHR ''/'' \<notin> set name" and "dir = [] \<or> last dir = CHR ''/''"
  shows "t_file_name_of (dir @ name) = name"
proof (cases "dir = []")
  case True
  with assms(1) show ?thesis by (simp add: t_file_name_of_def py_split_no_sep)
next
  case False
  with assms(2) obtain d where d: "dir = d @ [CHR ''/'']"
    by (metis append_butlast_last_id)
  have "last (py_split CHR ''/'' (d @ CHR ''/'' # name)) = name"
    using assms(1) by (simp add: last_py_split_append py_split_no_sep)
  then show ?thesis by (simp add: t_file_name_of_def d)
qed

lemma py_replace_absent:
  assumes "old \<noteq> []" and "\<And>i. take (length old) (drop i s) \<noteq> old"
  shows "py_replace s old new = s"
  using assms(2)
proof (induction s)
  case Nil
  with assms(1) show ?case by simp
next
  case (Cons c cs)
  have h: "take (length old) (c # cs) \<noteq> old"
    using Cons.prems [of 0] by simp
  have "\<And>i. take (length old) (drop i cs) \<noteq> old"
    using Cons.prems [of "Suc _"] by simp
  then have "py_replace cs old new = cs" by (rule Cons.IH)
  with assms(1) h show ?case by simp
qed

lemma py_replace_suffix:
  assumes "old \<noteq> []"
      and "\<And>i. i < length s \<Longrightarrow> take (length old) (drop i (s @ old)) \<noteq> old"
  shows "py_replace (s @ old) old new = s @ new"
  using assms(2)
proof (induction s)
  case Nil
  obtain c cs where old: "old = c # cs" using assms(1) by (cases old) auto
  have "py_replace (c # cs) (c # cs) new = new @ py_replace [] (c # cs) new"
    by (subst py_replace.simps(2)) simp
  then show ?case by (simp add: old)
next
  case (Cons c cs)
  have h: "take (length old) (c # (cs @ old)) \<noteq> old"
    using Cons.prems [of 0] by simp
  have "\<And>i. i < length cs \<Longrightarrow> take (length old) (drop i (cs @ old)) \<noteq> old"
    using Cons.prems [of "Suc _"] by simp
  then have "py_replace (cs @ old) old new = cs @ new" by (rule Cons.IH)
  with assms(1) h show ?case by simp
qed

lemma window_in_base:
  assumes "x \<notin> set b" and "i < length b" and "0 < n"
  shows "take n (drop i (b @ r)) \<noteq> x # xs"
proof -
  obtain m where n: "n = Suc m" using assms(3) by (cases n) auto
  have "drop i (b @ r) = b ! i # drop (Suc i) (b @ r)"
    using assms(2) by (simp add: Cons_nth_drop_Suc nth_append)
  moreover have "b ! i \<noteq> x" using assms(1,2) by (metis nth_mem)
  ultimately show ?thesis by (simp add: n)
qed

lemma clean_name_of_append:
  assumes "ext = ''.yaml'' \<or> ext = ''.yml''"
      and "CHR ''/'' \<notin> set b" and "CHR ''.'' \<notin> set b"
      and "dir = [] \<or> last dir = CHR ''/''"
  shows "clean_name_of (dir @ b @ ext) = b"
proof -
  have slash: "CHR ''/'' \<notin> set (b @ ext)"
    using assms(1,2) by auto
  have name: "t_file_name_of (dir @ b @ ext) = b @ ext"
    using t_file_name_of_append [OF slash assms(4)] by simp
  have yml_b: "py_replace b ''.yml'' [] = b"
  proof (rule py_replace_absent)
    fix i
    show "take (length ''.yml'') (drop i b) \<noteq> ''.yml''"
    proof (cases "i < length b")
      case True
      then show ?thesis using window_in_base [OF assms(3) True, of "length ''.yml''" "[]" "''yml''"] by simp
    next
      case False
      then show ?thesis by simp
    qed
  qed simp
  from assms(1) show ?thesis
  proof
    assume e: "ext = ''.yaml''"
    have "py_replace (b @ ''.yaml'') ''.yaml'' [] = b @ []"
    proof (rule py_replace_suffix)
      fix i assume "i < length b"
      then show "take (length ''.yaml'') (drop i (b @ ''.yaml'')) \<noteq> ''.yaml''"
        using window_in_base [OF assms(3), of i "length ''.yaml''" "''.yaml''" "''yaml''"] by simp
    qed simp
    moreover have "t_file_name_of (dir @ b @ ''.yaml'') = b @ ''.yaml''"
      using name e by simp
    ultimately show ?thesis by (simp add: clean_name_of_def e yml_b)
  next
    assume e: "ext = ''.yml''"
    have "py_replace (b @ ''.yml'') ''.yaml'' [] = b @ ''.yml''"
    proof (rule py_replace_absent)
      fix i
      show "take (length ''.yaml'') (drop i (b @ ''.yml'')) \<noteq> ''.yaml''"
      proof (cases "i < length b")
        case True
        then show ?thesis
          using window_in_base [OF assms(3) True, of "length ''.yaml''" "''.yml''" "''yaml''"] by simp
      next
        case False
        have "length (take (length ''.yaml'') (drop i (b @ ''.yml''))) < length ''.yaml''"
          using False by simp
        then show ?thesis by (metis less_irrefl)
      qed
    qed simp
    moreover have "py_replace (b @ ''.yml'') ''.yml'' [] = b @ []"
    proof (rule py_replace_suffix)
      fix i assume "i < length b"
      then show "take (length ''.yml'') (drop i (b @ ''.yml'')) \<noteq> ''.yml''"
        using window_in_base [OF assms(3), of i "length ''.yml''" "''.yml''" "''yml''"] by simp
    qed simp
    moreover have "t_file_name_of (dir @ b @ ''.yml'') = b @ ''.yml''"
      using name e by simp
    ultimately show ?thesis by (simp add: clean_name_of_def e)
  qed
qed

lemma path_of_append:
  assumes "CHR ''/'' \<notin> set name" and "name \<noteq> []"
      and "dir = [] \<or> last dir = CHR ''/''"
      and "\<And>i. i < length dir \<Longrightarrow> take (length name) (drop i (dir @ name)) \<noteq> name"
  shows "path_of (dir @ name) = dir"
  using py_replace_suffix [OF assms(2), of dir "[]"] assms(4)
  by (simp add: path_of_def t_file_name_of_append [OF assms(1,3)])

text \<open>
  For a template \<open>dir/b.yaml\<close> or \<open>dir/b.yml\<close> whose base name \<open>b\<close> contains no dot
  and no slash and whose file name occurs in the path at its end only, \<open>init_variables\<close>
  names the stack after \<open>b\<close> and looks the parameter template up as \<open>dir/b.json\<close>.
\<close>

lemma init_variables_plain_name:
  assumes "ext = ''.yaml'' \<or> ext = ''.yml''"
      and "CHR ''/'' \<notin> set b" and "CHR ''.'' \<notin> set b"
      and "dir = [] \<or> last dir = CHR ''/''"
      and "\<And>i. i < length dir \<Longrightarrow>
             take (length (b @ ext)) (drop i (dir @ b @ ext)) \<noteq> b @ ext"
      and "snd (init_variables w env (dir @ b @ ext)) = Inr ini"
  shows "stackName ini = ''ct-'' @ env @ ''-base-'' @ b @ ''-stack''
         \<and> jsonFile ini = dir @ b @ ''.json''"
proof -
  have slash: "CHR ''/'' \<notin> set (b @ ext)" and ne: "b @ ext \<noteq> []"
    using assms(1,2) by auto
  have c: "clean_name_of (dir @ b @ ext) = b"
    by (rule clean_name_of_append [OF assms(1-4)])
  have p: "path_of (dir @ b @ ext) = dir"
    using path_of_append [OF slash ne assms(4)] assms(5) by simp
  show ?thesis
    using assms(6)
    by (auto simp: init_variables_cases stack_name_of_def json_file_of_def c p
        split: if_splits sum.splits)
qed

text \<open>
  C9 fails on the code at the template \<open>templates/db.yml.yaml\<close>, whose base name is
  \<open>db.yml\<close>: \<open>init_variables\<close> removes every \<open>.yaml\<close> and every \<open>.yml\<close> from the file
  name, so the stack is named after \<open>db\<close> and the parameter template is looked up as
  \<open>templates/db.json\<close>.
\<close>

theorem init_variables_strips_inner_extension:
  "snd (init_variables all_files_world ''prod'' ''templates/db.yml.yaml'') =
     Inr \<lparr>valuesFile = ''cf_vars/prod.yml'', templateFileName = ''db.yml.yaml'',
          jsonFile = ''templates/db.json'', stackName = ''ct-prod-base-db-stack'',
          stackBody = ''Resources: {}''\<rparr>"
  by (simp add: init_variables_cases values_file_of_def json_file_of_def path_of_def
      clean_name_of_def t_file_name_of_def stack_name_of_def all_files_world_def)

end
